theory Spec2Isabelle
  imports Main
begin

section \<open>The runtime: responses, streams, the edge cache, the durable store, the upstream\<close>

text \<open>
  The worker (\<^verbatim>\<open>src/index.ts\<close>) and its cache helpers (\<^verbatim>\<open>cache.ts\<close>) are written against
  the Workers runtime: \<^verbatim>\<open>Response\<close> objects with mutable \<^verbatim>\<open>Headers\<close> and a one-shot body
  stream, the edge cache \<^verbatim>\<open>caches.default\<close>, the key-value store \<^verbatim>\<open>env.KV\<close>, \<^verbatim>\<open>fetch\<close>,
  \<^verbatim>\<open>Date\<close>. None of these is code of the repository; they are modelled here as one explicit
  \<open>world\<close> that every function of the source takes and returns.  An \<^verbatim>\<open>await\<close> is sequencing,
  a \<^verbatim>\<open>throw\<close> (or a rejected promise that is awaited) is an \<open>Inl\<close> result together with
  the world as it was left at that point.
\<close>

type_synonym headers = "string \<rightharpoonup> string"

text \<open>
  A response as a value: what the upstream sends and what the edge cache holds. Header
  names are the keys of \<open>headers\<close>, in lower case, as a \<^verbatim>\<open>Headers\<close> object keeps them.
\<close>

record message =
  status :: nat
  headers :: headers
  payload :: string

text \<open>
  A body stream can be read once; \<open>disturbed\<close> covers both "locked" and "already read".
  A \<^verbatim>\<open>Response\<close> object refers to its stream by address, so two objects can share one.
\<close>

record stream =
  data :: string
  disturbed :: bool

record Response =
  r_status :: nat
  r_headers :: headers
  r_body :: nat

datatype req_body = NoBody | JsonBody "(string \<times> string) list"

record request =
  verb :: string
  url :: string
  req_headers :: "(string \<times> string) list"
  req_body :: req_body

text \<open>Every call that leaves the worker is recorded, in order.\<close>

datatype event =
    CacheMatch string
  | CachePut string message
  | CacheDelete string
  | KvGet string
  | KvPut string string nat
  | Fetch request

datatype error =
    ConfigError
  | CacheBackendError
  | NetworkError
  | BodyUsedError
  | JsonSyntaxError
  | RefreshTokenNotFound
  | IdTokenNotFound

datatype number = Num int | NaN

record world =
  JQUANTS_API_EMAIL :: "string option"
  JQUANTS_API_PW :: "string option"
  KV :: "string \<rightharpoonup> string \<times> nat"
  cache :: "string \<rightharpoonup> message"
  cache_failing :: bool
  cache_keeps :: "string \<Rightarrow> message \<Rightarrow> message option"
  upstream :: "request \<Rightarrow> message option"
  JSON_parse :: "string \<Rightarrow> (string \<rightharpoonup> string) option"
  Date_parse :: "string \<Rightarrow> int option"
  Date_now :: int
  streams :: "stream list"
  responses :: "Response list"
  trace :: "event list"

text \<open>
  \<^item> \<open>JQUANTS_API_EMAIL\<close>, \<open>JQUANTS_API_PW\<close>: the two secrets of \<^verbatim>\<open>Env\<close>; \<open>None\<close> is
    \<^verbatim>\<open>undefined\<close> (the binding is not set).
  \<^item> \<open>KV\<close>: the live entries of the store, each with the \<^verbatim>\<open>expirationTtl\<close> it was put with;
    the store drops an entry when it expires, so an expired entry is an absent one.
  \<^item> \<open>cache\<close>: the live entries of \<^verbatim>\<open>caches.default\<close>, by request URL; \<open>cache_failing\<close>: the
    cache backend rejects its calls.
  \<^item> \<open>cache_keeps\<close>: what the cache backend makes of a response that is put under a URL:
    \<open>None\<close> when it refuses or drops the response (the backend has rules of its own, on
    the status and on the headers), otherwise the entry as \<^verbatim>\<open>match\<close> will give it back (the
    backend may set headers of its own). The worker has no say in this.
  \<^item> \<open>upstream\<close>: what the network answers to a request; \<open>None\<close> is a rejected \<^verbatim>\<open>fetch\<close>.
  \<^item> \<open>JSON_parse\<close>: the runtime's JSON parser on a body, \<open>None\<close> for a syntax error. The
    source casts the parsed value to an object with a string field
    (\<^verbatim>\<open>as { refreshToken: string }\<close>), so the model keeps the string-valued fields: a
    field is a string or is not there. (A body that parses to a number, a string or an
    array has no fields; \<^verbatim>\<open>null\<close> makes the field access throw, as a syntax error makes
    the parser throw.)
  \<^item> \<open>Date_parse\<close>: \<^verbatim>\<open>new Date(s).getTime()\<close> in milliseconds, \<open>None\<close> for an invalid date;
    \<open>Date_now\<close>: \<^verbatim>\<open>Date.now()\<close>.
  \<^item> \<open>streams\<close>, \<open>responses\<close>: the heap of body streams and of \<^verbatim>\<open>Response\<close> objects; an
    address is an index, a new object is appended.
\<close>

type_synonym 'a result = "(error + 'a) \<times> world"

subsection \<open>JavaScript values\<close>

text \<open>
  \<^verbatim>\<open>if (s)\<close> on a \<^verbatim>\<open>string | null | undefined\<close>: the empty string is falsy. Where the
  source goes on to use \<open>s\<close> as a string, the model writes \<open>the s\<close>, always under \<open>truthy s\<close>.
\<close>

fun truthy :: "string option \<Rightarrow> bool" where
  "truthy None = False"
| "truthy (Some s) = (s \<noteq> [])"

definition digit_char :: "nat \<Rightarrow> char" where
  "digit_char d = char_of (48 + d)"

fun digits :: "nat \<Rightarrow> string" where
  "digits n = (if n < 10 then [digit_char n] else digits (n div 10) @ [digit_char (n mod 10)])"

declare digits.simps [simp del]

text \<open>\<^verbatim>\<open>Number.prototype.toString()\<close> on an integral number or \<^verbatim>\<open>NaN\<close>.\<close>

fun Number_toString :: "number \<Rightarrow> string" where
  "Number_toString NaN = ''NaN''"
| "Number_toString (Num i) = (if i < 0 then CHR ''-'' # digits (nat (- i)) else digits (nat i))"

text \<open>Header names are case-insensitive: \<^verbatim>\<open>Headers\<close> keeps them in lower case.\<close>

definition lower_char :: "char \<Rightarrow> char" where
  "lower_char c = (let n = (of_char c :: nat) in if 65 \<le> n \<and> n \<le> 90 then char_of (n + 32) else c)"

definition lowercase :: "string \<Rightarrow> string" where
  "lowercase s = map lower_char s"

subsection \<open>Heap operations\<close>

definition log :: "event \<Rightarrow> world \<Rightarrow> world" where
  "log e w = w\<lparr>trace := trace w @ [e]\<rparr>"

definition new_stream :: "string \<Rightarrow> world \<Rightarrow> nat \<times> world" where
  "new_stream s w =
     (length (streams w), w\<lparr>streams := streams w @ [\<lparr>data = s, disturbed = False\<rparr>]\<rparr>)"

definition lock_stream :: "nat \<Rightarrow> world \<Rightarrow> world" where
  "lock_stream b w = w\<lparr>streams := (streams w)[b := (streams w ! b)\<lparr>disturbed := True\<rparr>]\<rparr>"

definition alloc_Response :: "Response \<Rightarrow> world \<Rightarrow> nat \<times> world" where
  "alloc_Response r w = (length (responses w), w\<lparr>responses := responses w @ [r]\<rparr>)"

text \<open>A response arriving from outside (the network or the cache): a fresh stream, a fresh object.\<close>

definition receive :: "message \<Rightarrow> world \<Rightarrow> nat \<times> world" where
  "receive m w =
     (case new_stream (payload m) w of
        (b, w1) \<Rightarrow> alloc_Response \<lparr>r_status = status m, r_headers = headers m, r_body = b\<rparr> w1)"

text \<open>
  \<^verbatim>\<open>new Response(body, init)\<close> with \<open>init\<close> a \<^verbatim>\<open>Response\<close>: status and a copy of the headers
  come from \<open>init\<close>, the body is the stream passed in (shared, not copied). A disturbed
  stream is refused with a \<^verbatim>\<open>TypeError\<close>.
\<close>

definition new_Response :: "nat \<Rightarrow> nat \<Rightarrow> world \<Rightarrow> nat result" where
  "new_Response b init w =
     (if disturbed (streams w ! b) then (Inl BodyUsedError, w)
      else
        (case alloc_Response
                \<lparr>r_status = r_status (responses w ! init),
                 r_headers = r_headers (responses w ! init),
                 r_body = b\<rparr> w of
           (r, w1) \<Rightarrow> (Inr r, w1)))"

text \<open>
  \<^verbatim>\<open>res.clone()\<close> tees the body: the old stream is locked, \<open>res\<close> continues on one branch and
  the clone gets the other; status and headers are copied.
\<close>

definition Response_clone :: "nat \<Rightarrow> world \<Rightarrow> nat result" where
  "Response_clone r w =
     (let res = responses w ! r; b = r_body res in
      if disturbed (streams w ! b) then (Inl BodyUsedError, w)
      else
        (case new_stream (data (streams w ! b)) (lock_stream b w) of
           (b1, w1) \<Rightarrow>
             (case new_stream (data (streams w ! b)) w1 of
                (b2, w2) \<Rightarrow>
                  (case alloc_Response
                          \<lparr>r_status = r_status res, r_headers = r_headers res, r_body = b2\<rparr>
                          (w2\<lparr>responses := (responses w2)[r := res\<lparr>r_body := b1\<rparr>]\<rparr>) of
                     (c, w3) \<Rightarrow> (Inr c, w3)))))"

definition Response_ok :: "nat \<Rightarrow> world \<Rightarrow> bool" where
  "Response_ok r w = (200 \<le> r_status (responses w ! r) \<and> r_status (responses w ! r) \<le> 299)"

definition Response_json :: "nat \<Rightarrow> world \<Rightarrow> (string \<rightharpoonup> string) result" where
  "Response_json r w =
     (let b = r_body (responses w ! r) in
      if disturbed (streams w ! b) then (Inl BodyUsedError, w)
      else
        (case JSON_parse w (data (streams w ! b)) of
           None \<Rightarrow> (Inl JsonSyntaxError, lock_stream b w)
         | Some obj \<Rightarrow> (Inr obj, lock_stream b w)))"

definition headers_get :: "nat \<Rightarrow> string \<Rightarrow> world \<Rightarrow> string option" where
  "headers_get r name w = r_headers (responses w ! r) (lowercase name)"

definition headers_set :: "nat \<Rightarrow> string \<Rightarrow> string \<Rightarrow> world \<Rightarrow> world" where
  "headers_set r name v w =
     w\<lparr>responses := (responses w)
          [r := (responses w ! r)\<lparr>r_headers := (r_headers (responses w ! r))(lowercase name \<mapsto> v)\<rparr>]\<rparr>"

definition headers_delete :: "nat \<Rightarrow> string \<Rightarrow> world \<Rightarrow> world" where
  "headers_delete r name w =
     w\<lparr>responses := (responses w)
          [r := (responses w ! r)\<lparr>r_headers := (r_headers (responses w ! r))(lowercase name := None)\<rparr>]\<rparr>"

text \<open>What a caller reading the response object \<open>r\<close> sees.\<close>

definition seen :: "nat \<Rightarrow> world \<Rightarrow> message" where
  "seen r w =
     \<lparr>status = r_status (responses w ! r),
      headers = r_headers (responses w ! r),
      payload = data (streams w ! r_body (responses w ! r))\<rparr>"

definition readable :: "nat \<Rightarrow> world \<Rightarrow> bool" where
  "readable r w = (\<not> disturbed (streams w ! r_body (responses w ! r)))"

subsection \<open>The edge cache \<^verbatim>\<open>caches.default\<close>\<close>

definition caches_match :: "string \<Rightarrow> world \<Rightarrow> nat option result" where
  "caches_match req w =
     (let w1 = log (CacheMatch req) w in
      if cache_failing w1 then (Inl CacheBackendError, w1)
      else
        (case cache w1 req of
           None \<Rightarrow> (Inr None, w1)
         | Some m \<Rightarrow> (case receive m w1 of (r, w2) \<Rightarrow> (Inr (Some r), w2))))"

text \<open>
  \<^verbatim>\<open>caches.default.put\<close> and \<^verbatim>\<open>delete\<close> are handed to \<^verbatim>\<open>waitUntil\<close> and never awaited:
  whatever they do, nothing comes back to the caller. The call is recorded with the
  response as it is handed over; what becomes of it is the backend's decision
  (\<open>cache_keeps\<close>), taken at the call. A failing backend or an unreadable body stores
  nothing.
\<close>

definition caches_put :: "string \<Rightarrow> nat \<Rightarrow> world \<Rightarrow> world" where
  "caches_put req r w =
     (let w1 = log (CachePut req (seen r w)) w in
      if cache_failing w1 \<or> \<not> readable r w1 then w1
      else
        (lock_stream (r_body (responses w1 ! r)) w1)
          \<lparr>cache := (case cache_keeps w1 req (seen r w) of
                       None \<Rightarrow> cache w1
                     | Some kept \<Rightarrow> (cache w1)(req \<mapsto> kept))\<rparr>)"

definition caches_delete :: "string \<Rightarrow> world \<Rightarrow> world" where
  "caches_delete req w =
     (let w1 = log (CacheDelete req) w in
      if cache_failing w1 then w1 else w1\<lparr>cache := (cache w1)(req := None)\<rparr>)"

subsection \<open>The durable store \<^verbatim>\<open>env.KV\<close> and \<^verbatim>\<open>fetch\<close>\<close>

definition KV_get :: "string \<Rightarrow> world \<Rightarrow> string option \<times> world" where
  "KV_get k w = (map_option fst (KV w k), log (KvGet k) w)"

definition KV_put :: "string \<Rightarrow> string \<Rightarrow> nat \<Rightarrow> world \<Rightarrow> world" where
  "KV_put k v ttl w = (log (KvPut k v ttl) w)\<lparr>KV := (KV w)(k \<mapsto> (v, ttl))\<rparr>"

definition fetch :: "request \<Rightarrow> world \<Rightarrow> nat result" where
  "fetch rq w =
     (let w1 = log (Fetch rq) w in
      case upstream w1 rq of
        None \<Rightarrow> (Inl NetworkError, w1)
      | Some m \<Rightarrow> (case receive m w1 of (r, w2) \<Rightarrow> (Inr r, w2)))"

section \<open>\<^verbatim>\<open>cache.ts\<close>\<close>

definition CACHE_MAX_AGE :: int where
  "CACHE_MAX_AGE = 60 * 10"

definition X_PROXY_CACHE_MAXAGE_KEY :: string where
  "X_PROXY_CACHE_MAXAGE_KEY = ''x-proxy-cache-maxage''"

definition X_PROXY_CACHE_AGE_KEY :: string where
  "X_PROXY_CACHE_AGE_KEY = ''x-proxy-cache-age''"

text \<open>
  \<^verbatim>\<open>setDebugHeaders(res)\<close>. The timestamps are whole milliseconds, so
  \<^verbatim>\<open>Math.floor((Date.now() - t) / 1000)\<close> is integer division rounding down; with an
  invalid date the arithmetic yields \<^verbatim>\<open>NaN\<close>.
\<close>

definition setDebugHeaders :: "nat \<Rightarrow> world \<Rightarrow> world" where
  "setDebugHeaders res w =
     (let date = headers_get res ''date'' w;
          w1 = (if truthy date then
                  (let age = (case Date_parse w (the date) of
                                None \<Rightarrow> NaN
                              | Some t \<Rightarrow> Num ((Date_now w - t) div 1000))
                   in headers_set res X_PROXY_CACHE_AGE_KEY (Number_toString age) w)
                else w)
      in headers_set res X_PROXY_CACHE_MAXAGE_KEY (Number_toString (Num CACHE_MAX_AGE)) w1)"

text \<open>\<^verbatim>\<open>getCache(req)\<close>: \<open>Inr None\<close> is \<^verbatim>\<open>undefined\<close>.\<close>

definition getCache :: "string \<Rightarrow> world \<Rightarrow> nat option result" where
  "getCache req w =
     (case caches_match req w of
        (Inl e, w1) \<Rightarrow> (Inl e, w1)
      | (Inr None, w1) \<Rightarrow> (Inr None, w1)
      | (Inr (Some c), w1) \<Rightarrow>
          (case new_Response (r_body (responses w1 ! c)) c w1 of
             (Inl e, w2) \<Rightarrow> (Inl e, w2)
           | (Inr res, w2) \<Rightarrow>
               (Inr (Some res), setDebugHeaders res (headers_delete res ''Cache-Control'' w2))))"

text \<open>
  \<^verbatim>\<open>putCache(c, req, res)\<close>. The execution context \<open>c\<close> only keeps the worker alive for the
  detached store (\<^verbatim>\<open>waitUntil\<close>), so it is not a parameter here.
\<close>

definition putCache :: "string \<Rightarrow> nat \<Rightarrow> world \<Rightarrow> unit result" where
  "putCache req res w =
     (case Response_clone res w of
        (Inl e, w1) \<Rightarrow> (Inl e, w1)
      | (Inr clone, w1) \<Rightarrow>
          (case new_Response (r_body (responses w1 ! clone)) clone w1 of
             (Inl e, w2) \<Rightarrow> (Inl e, w2)
           | (Inr newRes, w2) \<Rightarrow>
               (Inr (),
                caches_put req newRes
                  (headers_set newRes ''Cache-Control''
                     (''public, s-maxage='' @ Number_toString (Num CACHE_MAX_AGE)) w2))))"

definition deleteCache :: "string \<Rightarrow> world \<Rightarrow> world" where
  "deleteCache req w = caches_delete req w"

section \<open>\<^verbatim>\<open>index.ts\<close>\<close>

text \<open>
  The private methods of the worker class, without the \<^verbatim>\<open>#\<close> of their names. The
  \<^verbatim>\<open>console.debug\<close> lines only write to the log and are left out, and so is the
  \<^verbatim>\<open>fetch()\<close> handler, which answers a fixed JSON message and touches nothing.
\<close>

definition API_BASE_URL :: string where
  "API_BASE_URL = ''https://api.jquants.com''"

definition REFRESH_TOKEN_TTL :: nat where
  "REFRESH_TOKEN_TTL = 60 * 60 * 24 * 6"

definition ID_TOKEN_TTL :: nat where
  "ID_TOKEN_TTL = 60 * 60 * 23"

text \<open>
  The upstream's own lifetimes, as the doc comments of the two constants give them:
  seven days for the refresh token, twenty-four hours for the ID token.
\<close>

definition UPSTREAM_REFRESH_TOKEN_LIFETIME :: nat where
  "UPSTREAM_REFRESH_TOKEN_LIFETIME = 60 * 60 * 24 * 7"

definition UPSTREAM_ID_TOKEN_LIFETIME :: nat where
  "UPSTREAM_ID_TOKEN_LIFETIME = 60 * 60 * 24"

definition ID_TOKEN_KEY :: string where
  "ID_TOKEN_KEY = ''id_token''"

definition REFRESH_TOKEN_KEY :: string where
  "REFRESH_TOKEN_KEY = ''refresh_token''"

definition checkConfig :: "world \<Rightarrow> unit result" where
  "checkConfig w =
     (if \<not> truthy (JQUANTS_API_EMAIL w) \<or> \<not> truthy (JQUANTS_API_PW w) then (Inl ConfigError, w)
      else (Inr (), w))"

text \<open>\<^verbatim>\<open>JSON.stringify\<close> of an object literal leaves out the fields that are \<^verbatim>\<open>undefined\<close>.\<close>

fun JSON_stringify :: "(string \<times> string option) list \<Rightarrow> req_body" where
  "JSON_stringify fs = JsonBody (List.map_filter (\<lambda>(k, v). map_option (Pair k) v) fs)"

definition auth_user_request :: "world \<Rightarrow> request" where
  "auth_user_request w =
     \<lparr>verb = ''POST'',
      url = API_BASE_URL @ ''/v1/token/auth_user'',
      req_headers = [(''Content-Type'', ''application/json'')],
      req_body = JSON_stringify
                   [(''mailaddress'', JQUANTS_API_EMAIL w), (''password'', JQUANTS_API_PW w)]\<rparr>"

definition getNewRefreshToken :: "world \<Rightarrow> string result" where
  "getNewRefreshToken w =
     (case fetch (auth_user_request w) w of
        (Inl e, w1) \<Rightarrow> (Inl e, w1)
      | (Inr res, w1) \<Rightarrow>
          (case Response_json res w1 of
             (Inl e, w2) \<Rightarrow> (Inl e, w2)
           | (Inr json, w2) \<Rightarrow>
               if \<not> truthy (json ''refreshToken'') then (Inl RefreshTokenNotFound, w2)
               else (Inr (the (json ''refreshToken'')), w2)))"

definition auth_refresh_request :: "string \<Rightarrow> request" where
  "auth_refresh_request refreshToken =
     \<lparr>verb = ''POST'',
      url = API_BASE_URL @ ''/v1/token/auth_refresh?refreshtoken='' @ refreshToken,
      req_headers = [],
      req_body = NoBody\<rparr>"

definition getNewIdToken :: "string \<Rightarrow> world \<Rightarrow> string result" where
  "getNewIdToken refreshToken w =
     (case fetch (auth_refresh_request refreshToken) w of
        (Inl e, w1) \<Rightarrow> (Inl e, w1)
      | (Inr res, w1) \<Rightarrow>
          (case Response_json res w1 of
             (Inl e, w2) \<Rightarrow> (Inl e, w2)
           | (Inr json, w2) \<Rightarrow>
               if \<not> truthy (json ''idToken'') then (Inl IdTokenNotFound, w2)
               else (Inr (the (json ''idToken'')), w2)))"

definition getRefreshToken :: "world \<Rightarrow> string result" where
  "getRefreshToken w =
     (case KV_get REFRESH_TOKEN_KEY w of
        (cachedToken, w1) \<Rightarrow>
          if truthy cachedToken then (Inr (the cachedToken), w1)
          else
            (case getNewRefreshToken w1 of
               (Inl e, w2) \<Rightarrow> (Inl e, w2)
             | (Inr newToken, w2) \<Rightarrow>
                 (Inr newToken, KV_put REFRESH_TOKEN_KEY newToken REFRESH_TOKEN_TTL w2)))"

text \<open>
  \<^verbatim>\<open>#getToken()\<close>: the refresh token is resolved on the first line, before the store is
  asked for the ID token.
\<close>

definition getToken :: "world \<Rightarrow> string result" where
  "getToken w =
     (case getRefreshToken w of
        (Inl e, w1) \<Rightarrow> (Inl e, w1)
      | (Inr refreshToken, w1) \<Rightarrow>
          (case KV_get ID_TOKEN_KEY w1 of
             (cachedToken, w2) \<Rightarrow>
               if truthy cachedToken then (Inr (the cachedToken), w2)
               else
                 (case getNewIdToken refreshToken w2 of
                    (Inl e, w3) \<Rightarrow> (Inl e, w3)
                  | (Inr newToken, w3) \<Rightarrow>
                      (Inr newToken, KV_put ID_TOKEN_KEY newToken ID_TOKEN_TTL w3))))"

definition api_request :: "string \<Rightarrow> string \<Rightarrow> request" where
  "api_request u token =
     \<lparr>verb = ''GET'',
      url = u,
      req_headers = [(''Authorization'', ''Bearer '' @ token)],
      req_body = NoBody\<rparr>"

definition fetchWithCache :: "string \<Rightarrow> world \<Rightarrow> nat result" where
  "fetchWithCache u w =
     (case getCache u w of
        (Inl e, w1) \<Rightarrow> (Inl e, w1)
      | (Inr (Some res), w1) \<Rightarrow> (Inr res, w1)
      | (Inr None, w1) \<Rightarrow>
          (case getToken w1 of
             (Inl e, w2) \<Rightarrow> (Inl e, w2)
           | (Inr token, w2) \<Rightarrow>
               (case fetch (api_request u token) w2 of
                  (Inl e, w3) \<Rightarrow> (Inl e, w3)
                | (Inr res, w3) \<Rightarrow>
                    if Response_ok res w3 then
                      (case putCache u res w3 of
                         (Inl e, w4) \<Rightarrow> (Inl e, w4)
                       | (Inr _, w4) \<Rightarrow> (Inr res, w4))
                    else (Inr res, w3))))"

text \<open>\<^verbatim>\<open>get(endpoint)\<close>, the worker's entry point (the spec's \<open>resolve\<close>).\<close>

definition get :: "string \<Rightarrow> world \<Rightarrow> nat result" where
  "get endpoint w =
     (case checkConfig w of
        (Inl e, w1) \<Rightarrow> (Inl e, w1)
      | (Inr _, w1) \<Rightarrow> fetchWithCache (API_BASE_URL @ endpoint) w1)"

section \<open>Notions used to state the properties\<close>

text \<open>A response object that exists in the heap, together with its body stream.\<close>

definition valid_Response :: "nat \<Rightarrow> world \<Rightarrow> bool" where
  "valid_Response r w =
     (r < length (responses w) \<and> r_body (responses w ! r) < length (streams w))"

text \<open>The calls recorded between the world \<open>w\<close> before an operation and \<open>w'\<close> after it.\<close>

definition issued :: "world \<Rightarrow> world \<Rightarrow> event list" where
  "issued w w' = drop (length (trace w)) (trace w')"

subsection \<open>Sample worlds\<close>

text \<open>
  A configured worker in front of an upstream that accepts the login, mints an ID token
  for the refresh token it handed out, answers \<^verbatim>\<open>/v1/x\<close> with a 200 that asks not to be
  stored, \<^verbatim>\<open>/v1/partial\<close> with a 206, and \<^verbatim>\<open>/v1/missing\<close> with a 404. The response date
  is 1700000000 seconds after the epoch and the clock stands 4.5 seconds later. The cache
  backend refuses a 206 and drops a response that sets a cookie; what it keeps, it keeps
  as it is.
\<close>

definition demo_date :: string where
  "demo_date = ''Tue, 14 Nov 2023 22:13:20 GMT''"

definition demo_answer :: message where
  "demo_answer =
     \<lparr>status = 200,
      headers = [''date'' \<mapsto> demo_date, ''cache-control'' \<mapsto> ''no-store''],
      payload = ''{x: 1}''\<rparr>"

definition demo_not_found :: message where
  "demo_not_found = \<lparr>status = 404, headers = Map.empty, payload = ''not found''\<rparr>"

definition demo_partial :: message where
  "demo_partial = \<lparr>status = 206, headers = Map.empty, payload = ''{x: ''\<rparr>"

definition demo_cache_keeps :: "string \<Rightarrow> message \<Rightarrow> message option" where
  "demo_cache_keeps u m =
     (if status m = 206 \<or> headers m ''set-cookie'' \<noteq> None then None else Some m)"

definition demo_upstream :: "request \<Rightarrow> message option" where
  "demo_upstream rq =
     (if url rq = ''https://api.jquants.com/v1/token/auth_user''
      then Some \<lparr>status = 200, headers = Map.empty, payload = ''{refreshToken: rt-1}''\<rparr>
      else if url rq = ''https://api.jquants.com/v1/token/auth_refresh?refreshtoken=rt-1''
      then Some \<lparr>status = 200, headers = Map.empty, payload = ''{idToken: id-1}''\<rparr>
      else if url rq = ''https://api.jquants.com/v1/x'' then Some demo_answer
      else if url rq = ''https://api.jquants.com/v1/partial'' then Some demo_partial
      else if url rq = ''https://api.jquants.com/v1/missing'' then Some demo_not_found
      else None)"

definition demo_JSON_parse :: "string \<Rightarrow> (string \<rightharpoonup> string) option" where
  "demo_JSON_parse s =
     (if s = ''{refreshToken: rt-1}'' then Some [''refreshToken'' \<mapsto> ''rt-1'']
      else if s = ''{idToken: id-1}'' then Some [''idToken'' \<mapsto> ''id-1'']
      else if s = ''{message: denied}'' then Some [''message'' \<mapsto> ''denied'']
      else None)"

definition demo_Date_parse :: "string \<Rightarrow> int option" where
  "demo_Date_parse s = (if s = demo_date then Some 1700000000000 else None)"

definition demo_world :: world where
  "demo_world =
     \<lparr>JQUANTS_API_EMAIL = Some ''user@example.com'', JQUANTS_API_PW = Some ''secret'',
      KV = Map.empty, cache = Map.empty, cache_failing = False,
      cache_keeps = demo_cache_keeps,
      upstream = demo_upstream, JSON_parse = demo_JSON_parse, Date_parse = demo_Date_parse,
      Date_now = 1700000004500, streams = [], responses = [], trace = []\<rparr>"

text \<open>The same with \<^verbatim>\<open>/v1/x\<close> in the edge cache, as \<open>putCache\<close> stores it.\<close>

definition demo_entry :: message where
  "demo_entry =
     \<lparr>status = 200,
      headers = [''date'' \<mapsto> demo_date, ''cache-control'' \<mapsto> ''public, s-maxage=600''],
      payload = ''{x: 1}''\<rparr>"

definition hit_world :: world where
  "hit_world = demo_world\<lparr>cache := [''https://api.jquants.com/v1/x'' \<mapsto> demo_entry]\<rparr>"

text \<open>A cached entry that carries no \<^verbatim>\<open>date\<close> header.\<close>

definition undated_entry :: message where
  "undated_entry =
     \<lparr>status = 200,
      headers = [''cache-control'' \<mapsto> ''public, s-maxage=600''],
      payload = ''{x: 1}''\<rparr>"

definition undated_world :: world where
  "undated_world =
     demo_world\<lparr>cache := [''https://api.jquants.com/v1/x'' \<mapsto> undated_entry]\<rparr>"

text \<open>The cache backend is down.\<close>

definition down_world :: world where
  "down_world = demo_world\<lparr>cache_failing := True\<rparr>"

text \<open>The password is not set; the edge cache holds the entry all the same.\<close>

definition unconfigured_world :: world where
  "unconfigured_world = hit_world\<lparr>JQUANTS_API_PW := None\<rparr>"

text \<open>Both tokens are in the store already.\<close>

definition warm_world :: world where
  "warm_world =
     demo_world\<lparr>KV := [''refresh_token'' \<mapsto> (''rt-1'', 518400),
                         ''id_token'' \<mapsto> (''id-1'', 82800)]\<rparr>"

text \<open>
  The store still holds an ID token, the refresh token has expired, and the upstream
  turns the login down with a JSON body that has no token in it.
\<close>

definition denying_upstream :: "request \<Rightarrow> message option" where
  "denying_upstream rq =
     Some \<lparr>status = 400, headers = Map.empty, payload = ''{message: denied}''\<rparr>"

definition stale_refresh_world :: world where
  "stale_refresh_world =
     demo_world\<lparr>KV := [''id_token'' \<mapsto> (''id-0'', 82800)], upstream := denying_upstream\<rparr>"

text \<open>Nothing in the store, and the upstream turns the login down.\<close>

definition denied_world :: world where
  "denied_world = demo_world\<lparr>upstream := denying_upstream\<rparr>"

text \<open>A heap with one response object, as \<open>fetch\<close> leaves it, and nothing read yet.\<close>

definition fetched_world :: world where
  "fetched_world =
     demo_world
       \<lparr>streams := [\<lparr>data = ''{x: 1}'', disturbed = False\<rparr>],
        responses :=
          [\<lparr>r_status = 200,
            r_headers = [''date'' \<mapsto> demo_date, ''cache-control'' \<mapsto> ''no-store''],
            r_body = 0\<rparr>]\<rparr>"

text \<open>The store holds empty strings under both token keys.\<close>

definition blank_store_world :: world where
  "blank_store_world =
     demo_world\<lparr>KV := [''refresh_token'' \<mapsto> ([], 518400), ''id_token'' \<mapsto> ([], 82800)]\<rparr>"

text \<open>
  The store holds an ID token but no refresh token (the refresh token, stored earlier, has
  run out first); the upstream accepts the login.
\<close>

definition expired_refresh_world :: world where
  "expired_refresh_world = demo_world\<lparr>KV := [''id_token'' \<mapsto> (''id-0'', 82800)]\<rparr>"

text \<open>The store holds a refresh token, and the upstream refuses to mint an ID token for it.\<close>

definition id_denied_world :: world where
  "id_denied_world =
     demo_world\<lparr>KV := [''refresh_token'' \<mapsto> (''rt-0'', 518400)], upstream := denying_upstream\<rparr>"

text \<open>The body of the one response object has been read already.\<close>

definition used_body_world :: world where
  "used_body_world = fetched_world\<lparr>streams := [\<lparr>data = ''{x: 1}'', disturbed = True\<rparr>]\<rparr>"

subsection \<open>Predicates on recorded calls\<close>

fun is_CachePut :: "event \<Rightarrow> bool" where
  "is_CachePut (CachePut u m) = True"
| "is_CachePut e = False"

fun is_KvPut :: "event \<Rightarrow> bool" where
  "is_KvPut (KvPut k v ttl) = True"
| "is_KvPut e = False"

text \<open>A write to the store is a token write: one of the two keys, with that key's TTL.\<close>

fun token_put :: "event \<Rightarrow> bool" where
  "token_put (KvPut k v ttl) =
     ((k = ''refresh_token'' \<and> ttl = 518400) \<or> (k = ''id_token'' \<and> ttl = 82800))"
| "token_put e = True"

text \<open>A write to the store writes a non-empty value.\<close>

fun nonempty_put :: "event \<Rightarrow> bool" where
  "nonempty_put (KvPut k v ttl) = (v \<noteq> [])"
| "nonempty_put e = True"

text \<open>A request that carries an \<^verbatim>\<open>Authorization\<close> header carries a non-empty bearer token.\<close>

fun nonempty_bearer :: "event \<Rightarrow> bool" where
  "nonempty_bearer (Fetch rq) =
     (case map_of (req_headers rq) ''Authorization'' of
        None \<Rightarrow> True
      | Some v \<Rightarrow> take 7 v = ''Bearer '' \<and> 7 < length v)"
| "nonempty_bearer e = True"

section \<open>Basic facts about the runtime and the source functions\<close>

lemmas heap_defs = log_def receive_def new_stream_def alloc_Response_def lock_stream_def
  new_Response_def Response_clone_def Response_json_def Response_ok_def
  headers_get_def headers_set_def headers_delete_def seen_def readable_def

lemmas source_defs = get_def checkConfig_def fetchWithCache_def getCache_def putCache_def
  getToken_def getRefreshToken_def getNewRefreshToken_def getNewIdToken_def
  auth_user_request_def auth_refresh_request_def api_request_def setDebugHeaders_def
  caches_match_def caches_put_def KV_get_def KV_put_def fetch_def
  API_BASE_URL_def REFRESH_TOKEN_KEY_def ID_TOKEN_KEY_def REFRESH_TOKEN_TTL_def ID_TOKEN_TTL_def

lemmas demo_defs = demo_world_def demo_upstream_def demo_JSON_parse_def demo_Date_parse_def
  demo_answer_def demo_not_found_def demo_partial_def demo_cache_keeps_def demo_date_def
  demo_entry_def hit_world_def
  undated_entry_def undated_world_def down_world_def unconfigured_world_def warm_world_def
  denying_upstream_def stale_refresh_world_def denied_world_def fetched_world_def
  blank_store_world_def expired_refresh_world_def id_denied_world_def used_body_world_def

lemma CACHE_MAX_AGE_string: "Number_toString (Num CACHE_MAX_AGE) = ''600''"
  by code_simp

lemma lowercase_names:
  "lowercase ''Cache-Control'' = ''cache-control''"
  "lowercase ''date'' = ''date''"
  "lowercase X_PROXY_CACHE_AGE_KEY = ''x-proxy-cache-age''"
  "lowercase X_PROXY_CACHE_MAXAGE_KEY = ''x-proxy-cache-maxage''"
  "lowercase ''x-proxy-cache-age'' = ''x-proxy-cache-age''"
  "lowercase ''x-proxy-cache-maxage'' = ''x-proxy-cache-maxage''"
  by code_simp+

lemma truthy_iff: "truthy x \<longleftrightarrow> (\<exists>s. x = Some s \<and> s \<noteq> [])"
  by (cases x) auto

lemma truthy_KV: "truthy (map_option fst (m k)) \<longleftrightarrow> (\<exists>s n. m k = Some (s, n) \<and> s \<noteq> [])"
  by (cases "m k") auto

lemma token_keys_distinct: "ID_TOKEN_KEY \<noteq> REFRESH_TOKEN_KEY"
  by (simp add: ID_TOKEN_KEY_def REFRESH_TOKEN_KEY_def)

subsection \<open>Token acquisition\<close>

lemma getNewRefreshToken_effect:
  assumes "getNewRefreshToken w = (r, w')"
  shows "KV w' = KV w" and "cache w' = cache w" and "cache_failing w' = cache_failing w"
    and "upstream w' = upstream w" and "JSON_parse w' = JSON_parse w"
    and "JQUANTS_API_EMAIL w' = JQUANTS_API_EMAIL w" and "JQUANTS_API_PW w' = JQUANTS_API_PW w"
    and "Date_parse w' = Date_parse w" and "Date_now w' = Date_now w"
    and "cache_keeps w' = cache_keeps w"
    and "trace w' = trace w @ [Fetch (auth_user_request w)]"
  using assms
  by (auto simp: getNewRefreshToken_def fetch_def heap_defs Let_def nth_append
      split: option.splits if_splits)

lemma getNewRefreshToken_result:
  "fst (getNewRefreshToken w) =
     (case upstream w (auth_user_request w) of
        None \<Rightarrow> Inl NetworkError
      | Some m \<Rightarrow>
          (case JSON_parse w (payload m) of
             None \<Rightarrow> Inl JsonSyntaxError
           | Some obj \<Rightarrow>
               (case obj ''refreshToken'' of
                  None \<Rightarrow> Inl RefreshTokenNotFound
                | Some t \<Rightarrow> if t = [] then Inl RefreshTokenNotFound else Inr t)))"
  by (auto simp: getNewRefreshToken_def fetch_def heap_defs Let_def nth_append
      split: option.splits if_splits)

lemma getNewIdToken_effect:
  assumes "getNewIdToken rt w = (r, w')"
  shows "KV w' = KV w" and "cache w' = cache w" and "cache_failing w' = cache_failing w"
    and "upstream w' = upstream w" and "JSON_parse w' = JSON_parse w"
    and "JQUANTS_API_EMAIL w' = JQUANTS_API_EMAIL w" and "JQUANTS_API_PW w' = JQUANTS_API_PW w"
    and "Date_parse w' = Date_parse w" and "Date_now w' = Date_now w"
    and "cache_keeps w' = cache_keeps w"
    and "trace w' = trace w @ [Fetch (auth_refresh_request rt)]"
  using assms
  by (auto simp: getNewIdToken_def fetch_def heap_defs Let_def nth_append
      split: option.splits if_splits)

lemma getNewIdToken_result:
  "fst (getNewIdToken rt w) =
     (case upstream w (auth_refresh_request rt) of
        None \<Rightarrow> Inl NetworkError
      | Some m \<Rightarrow>
          (case JSON_parse w (payload m) of
             None \<Rightarrow> Inl JsonSyntaxError
           | Some obj \<Rightarrow>
               (case obj ''idToken'' of
                  None \<Rightarrow> Inl IdTokenNotFound
                | Some t \<Rightarrow> if t = [] then Inl IdTokenNotFound else Inr t)))"
  by (auto simp: getNewIdToken_def fetch_def heap_defs Let_def nth_append
      split: option.splits if_splits)

subsection \<open>The two token getters\<close>

lemma getRefreshToken_effect:
  assumes "getRefreshToken w = (r, w')"
  shows "cache w' = cache w" and "cache_failing w' = cache_failing w"
    and "upstream w' = upstream w" and "JSON_parse w' = JSON_parse w"
    and "JQUANTS_API_EMAIL w' = JQUANTS_API_EMAIL w" and "JQUANTS_API_PW w' = JQUANTS_API_PW w"
    and "Date_parse w' = Date_parse w" and "Date_now w' = Date_now w"
    and "cache_keeps w' = cache_keeps w"
proof -
  obtain r2 w2 where n: "getNewRefreshToken (log (KvGet REFRESH_TOKEN_KEY) w) = (r2, w2)"
    by fastforce
  note e = getNewRefreshToken_effect [OF n]
  show "cache w' = cache w" and "cache_failing w' = cache_failing w"
    and "upstream w' = upstream w" and "JSON_parse w' = JSON_parse w"
    and "JQUANTS_API_EMAIL w' = JQUANTS_API_EMAIL w" and "JQUANTS_API_PW w' = JQUANTS_API_PW w"
    and "Date_parse w' = Date_parse w" and "Date_now w' = Date_now w"
    and "cache_keeps w' = cache_keeps w"
    using assms n e
    by (auto simp: getRefreshToken_def KV_get_def KV_put_def log_def split: if_splits sum.splits)
qed

lemma getRefreshToken_cached:
  assumes "KV w REFRESH_TOKEN_KEY = Some (t, n)" and "t \<noteq> []"
  shows "getRefreshToken w = (Inr t, log (KvGet REFRESH_TOKEN_KEY) w)"
  using assms by (simp add: getRefreshToken_def KV_get_def)

lemma getRefreshToken_store:
  assumes "getRefreshToken w = (r, w')"
  shows "case r of
           Inl e \<Rightarrow> KV w' = KV w \<and> \<not> truthy (map_option fst (KV w REFRESH_TOKEN_KEY)) \<and>
             trace w' = trace w @ [KvGet REFRESH_TOKEN_KEY, Fetch (auth_user_request w)]
         | Inr t \<Rightarrow> t \<noteq> [] \<and>
             (if truthy (map_option fst (KV w REFRESH_TOKEN_KEY))
              then KV w' = KV w \<and> map_option fst (KV w REFRESH_TOKEN_KEY) = Some t \<and>
                   trace w' = trace w @ [KvGet REFRESH_TOKEN_KEY]
              else KV w' = (KV w)(REFRESH_TOKEN_KEY \<mapsto> (t, REFRESH_TOKEN_TTL)) \<and>
                   trace w' = trace w @ [KvGet REFRESH_TOKEN_KEY, Fetch (auth_user_request w),
                                         KvPut REFRESH_TOKEN_KEY t REFRESH_TOKEN_TTL])"
proof -
  obtain r2 w2 where n: "getNewRefreshToken (log (KvGet REFRESH_TOKEN_KEY) w) = (r2, w2)"
    by fastforce
  note e = getNewRefreshToken_effect [OF n]
  have res: "r2 = fst (getNewRefreshToken (log (KvGet REFRESH_TOKEN_KEY) w))"
    using n by simp
  have ne: "\<And>t. r2 = Inr t \<Longrightarrow> t \<noteq> []"
    unfolding res getNewRefreshToken_result by (auto split: option.splits if_splits)
  have rq: "auth_user_request (log (KvGet REFRESH_TOKEN_KEY) w) = auth_user_request w"
    by (simp add: auth_user_request_def log_def)
  show ?thesis
    using assms n e ne rq
    by (auto simp: getRefreshToken_def KV_get_def KV_put_def log_def truthy_KV
        split: if_splits sum.splits option.splits)
qed


lemma getToken_store:
  assumes gr: "getRefreshToken w = (Inr rt, w1)" and g: "getToken w = (r, w')"
  shows "case r of
           Inl e \<Rightarrow> KV w' = KV w1 \<and> \<not> truthy (map_option fst (KV w1 ID_TOKEN_KEY)) \<and>
             trace w' = trace w1 @ [KvGet ID_TOKEN_KEY, Fetch (auth_refresh_request rt)]
         | Inr t \<Rightarrow> t \<noteq> [] \<and>
             (if truthy (map_option fst (KV w1 ID_TOKEN_KEY))
              then KV w' = KV w1 \<and> map_option fst (KV w1 ID_TOKEN_KEY) = Some t \<and>
                   trace w' = trace w1 @ [KvGet ID_TOKEN_KEY]
              else KV w' = (KV w1)(ID_TOKEN_KEY \<mapsto> (t, ID_TOKEN_TTL)) \<and>
                   trace w' = trace w1 @ [KvGet ID_TOKEN_KEY, Fetch (auth_refresh_request rt),
                                          KvPut ID_TOKEN_KEY t ID_TOKEN_TTL])"
proof -
  obtain r2 w2 where n: "getNewIdToken rt (log (KvGet ID_TOKEN_KEY) w1) = (r2, w2)"
    by fastforce
  note e = getNewIdToken_effect [OF n]
  have res: "r2 = fst (getNewIdToken rt (log (KvGet ID_TOKEN_KEY) w1))"
    using n by simp
  have ne: "\<And>t. r2 = Inr t \<Longrightarrow> t \<noteq> []"
    unfolding res getNewIdToken_result by (auto split: option.splits if_splits)
  show ?thesis
    using g gr n e ne
    by (auto simp: getToken_def KV_get_def KV_put_def log_def truthy_KV
        split: if_splits sum.splits option.splits)
qed

lemma getToken_effect:
  assumes "getToken w = (r, w')"
  shows "cache w' = cache w" and "cache_failing w' = cache_failing w"
    and "upstream w' = upstream w" and "JSON_parse w' = JSON_parse w"
    and "JQUANTS_API_EMAIL w' = JQUANTS_API_EMAIL w" and "JQUANTS_API_PW w' = JQUANTS_API_PW w"
    and "Date_parse w' = Date_parse w" and "Date_now w' = Date_now w"
    and "cache_keeps w' = cache_keeps w"
proof -
  obtain r1 w1 where gr: "getRefreshToken w = (r1, w1)"
    by fastforce
  note e1 = getRefreshToken_effect [OF gr]
  obtain r2 w2 where n: "getNewIdToken (projr r1) (log (KvGet ID_TOKEN_KEY) w1) = (r2, w2)"
    by fastforce
  note e2 = getNewIdToken_effect [OF n]
  show "cache w' = cache w" and "cache_failing w' = cache_failing w"
    and "upstream w' = upstream w" and "JSON_parse w' = JSON_parse w"
    and "JQUANTS_API_EMAIL w' = JQUANTS_API_EMAIL w" and "JQUANTS_API_PW w' = JQUANTS_API_PW w"
    and "Date_parse w' = Date_parse w" and "Date_now w' = Date_now w"
    and "cache_keeps w' = cache_keeps w"
    using assms gr n e1 e2
    by (auto simp: getToken_def KV_get_def KV_put_def log_def split: if_splits sum.splits)
qed

lemma getToken_success:
  assumes "getToken w = (Inr t, w')"
  shows "t \<noteq> []" and "\<exists>n. KV w' ID_TOKEN_KEY = Some (t, n)"
    and "\<exists>rt n. KV w' REFRESH_TOKEN_KEY = Some (rt, n) \<and> rt \<noteq> []"
proof -
  obtain r1 w1 where gr: "getRefreshToken w = (r1, w1)"
    by fastforce
  with assms obtain rt where r1: "r1 = Inr rt"
    by (cases r1) (auto simp: getToken_def)
  have s1: "rt \<noteq> [] \<and> (\<exists>n. KV w1 REFRESH_TOKEN_KEY = Some (rt, n))"
    using getRefreshToken_store [OF gr] r1
    by (auto simp: truthy_KV split: if_splits)
  note s2 = getToken_store [OF gr [unfolded r1] assms]
  show "t \<noteq> []" using s2 by simp
  show "\<exists>n. KV w' ID_TOKEN_KEY = Some (t, n)"
    using s2 by (auto simp: truthy_KV split: if_splits)
  show "\<exists>rt n. KV w' REFRESH_TOKEN_KEY = Some (rt, n) \<and> rt \<noteq> []"
    using s1 s2 token_keys_distinct by (auto simp: truthy_KV split: if_splits)
qed

lemma getToken_cached:
  assumes "KV w REFRESH_TOKEN_KEY = Some (rt, n)" and "rt \<noteq> []"
    and "KV w ID_TOKEN_KEY = Some (t, k)" and "t \<noteq> []"
  shows "getToken w = (Inr t, log (KvGet ID_TOKEN_KEY) (log (KvGet REFRESH_TOKEN_KEY) w))"
  using assms by (simp add: getToken_def getRefreshToken_cached KV_get_def log_def)

subsection \<open>The response cache and \<open>fetch\<close>\<close>

lemma getCache_failing:
  "cache_failing w \<Longrightarrow> getCache u w = (Inl CacheBackendError, log (CacheMatch u) w)"
  by (simp add: getCache_def caches_match_def log_def Let_def)

lemma getCache_miss:
  "\<not> cache_failing w \<Longrightarrow> cache w u = None \<Longrightarrow> getCache u w = (Inr None, log (CacheMatch u) w)"
  by (simp add: getCache_def caches_match_def log_def Let_def)

lemma getCache_hit:
  assumes "\<not> cache_failing w" and "cache w u = Some m"
  shows "\<exists>res w'. getCache u w = (Inr (Some res), w')
     \<and> trace w' = trace w @ [CacheMatch u]
     \<and> KV w' = KV w \<and> cache w' = cache w
     \<and> status (seen res w') = status m
     \<and> payload (seen res w') = payload m
     \<and> readable res w'
     \<and> headers (seen res w') =
          (if truthy (headers m ''date'')
           then ((headers m)(''cache-control'' := None))
                  (''x-proxy-cache-age'' \<mapsto>
                     Number_toString
                       (case Date_parse w (the (headers m ''date'')) of
                          None \<Rightarrow> NaN
                        | Some t \<Rightarrow> Num ((Date_now w - t) div 1000)))
           else (headers m)(''cache-control'' := None))(''x-proxy-cache-maxage'' \<mapsto> ''600'')"
  using assms
  by (simp add: getCache_def caches_match_def setDebugHeaders_def heap_defs
      lowercase_names CACHE_MAX_AGE_string Let_def nth_append
      del: Number_toString.simps cong: option.case_cong)

lemma fetch_effect:
  assumes "upstream w rq = Some m"
  shows "\<exists>res w'. fetch rq w = (Inr res, w') \<and> valid_Response res w' \<and> readable res w'
     \<and> seen res w' = m \<and> trace w' = trace w @ [Fetch rq] \<and> KV w' = KV w \<and> cache w' = cache w
     \<and> cache_failing w' = cache_failing w \<and> upstream w' = upstream w
     \<and> cache_keeps w' = cache_keeps w
     \<and> JQUANTS_API_EMAIL w' = JQUANTS_API_EMAIL w \<and> JQUANTS_API_PW w' = JQUANTS_API_PW w"
  using assms
  by (simp add: fetch_def heap_defs valid_Response_def Let_def nth_append)

lemma putCache_effect:
  assumes "valid_Response res w" and "readable res w"
  shows "\<exists>w'. putCache u res w = (Inr (), w') \<and> seen res w' = seen res w \<and> readable res w'
     \<and> valid_Response res w'
     \<and> trace w' = trace w @
          [CachePut u ((seen res w)\<lparr>headers := (headers (seen res w))
                                        (''cache-control'' \<mapsto> ''public, s-maxage=600'')\<rparr>)]
     \<and> cache w' =
          (if cache_failing w then cache w
           else (case cache_keeps w u
                        ((seen res w)\<lparr>headers := (headers (seen res w))
                                        (''cache-control'' \<mapsto> ''public, s-maxage=600'')\<rparr>) of
                   None \<Rightarrow> cache w
                 | Some kept \<Rightarrow> (cache w)(u \<mapsto> kept)))
     \<and> KV w' = KV w \<and> cache_failing w' = cache_failing w \<and> upstream w' = upstream w
     \<and> cache_keeps w' = cache_keeps w
     \<and> JQUANTS_API_EMAIL w' = JQUANTS_API_EMAIL w \<and> JQUANTS_API_PW w' = JQUANTS_API_PW w"
  using assms
  by (simp add: putCache_def caches_put_def heap_defs valid_Response_def
      lowercase_names CACHE_MAX_AGE_string Let_def nth_append
      del: Number_toString.simps cong: option.case_cong)

lemma putCache_body_used:
  "\<not> readable res w \<Longrightarrow> putCache u res w = (Inl BodyUsedError, w)"
  by (simp add: putCache_def heap_defs Let_def)

lemma get_configured:
  "truthy (JQUANTS_API_EMAIL w) \<Longrightarrow> truthy (JQUANTS_API_PW w) \<Longrightarrow>
     get endpoint w = fetchWithCache (API_BASE_URL @ endpoint) w"
  by (simp add: get_def checkConfig_def)

subsection \<open>The calls a token getter makes\<close>

lemma getRefreshToken_issued:
  assumes "P (KvGet REFRESH_TOKEN_KEY)" and "P (Fetch (auth_user_request w))"
    and "\<And>t. t \<noteq> [] \<Longrightarrow> P (KvPut REFRESH_TOKEN_KEY t REFRESH_TOKEN_TTL)"
  shows "list_all P (issued w (snd (getRefreshToken w)))"
proof -
  obtain r w' where g: "getRefreshToken w = (r, w')"
    by fastforce
  show ?thesis
    using getRefreshToken_store [OF g] g assms
    by (cases r) (auto simp: issued_def split: if_splits)
qed

lemma getToken_issued:
  assumes "P (KvGet REFRESH_TOKEN_KEY)" and "P (KvGet ID_TOKEN_KEY)"
    and "P (Fetch (auth_user_request w))"
    and "\<And>rt. rt \<noteq> [] \<Longrightarrow> P (Fetch (auth_refresh_request rt))"
    and "\<And>t. t \<noteq> [] \<Longrightarrow> P (KvPut REFRESH_TOKEN_KEY t REFRESH_TOKEN_TTL)"
    and "\<And>t. t \<noteq> [] \<Longrightarrow> P (KvPut ID_TOKEN_KEY t ID_TOKEN_TTL)"
  shows "list_all P (issued w (snd (getToken w)))"
proof -
  obtain r1 w1 where g1: "getRefreshToken w = (r1, w1)"
    by fastforce
  obtain r w' where g: "getToken w = (r, w')"
    by fastforce
  show ?thesis
  proof (cases r1)
    case (Inl e)
    with g1 g have "w' = w1"
      by (simp add: getToken_def)
    then show ?thesis
      using getRefreshToken_store [OF g1] Inl g assms by (auto simp: issued_def)
  next
    case (Inr rt)
    note s1 = getRefreshToken_store [OF g1, unfolded Inr, simplified]
    note s2 = getToken_store [OF g1 [unfolded Inr] g]
    from s1 have rt: "rt \<noteq> []" by simp
    show ?thesis
      using s1 s2 g assms(1,2,3) assms(4) [OF rt] assms(5,6)
      by (cases r) (auto simp: issued_def split: if_splits)
  qed
qed

lemma getToken_store_change:
  "KV (snd (getToken w)) = KV w
   \<or> (\<exists>rt. rt \<noteq> [] \<and> KV (snd (getToken w)) = (KV w)(REFRESH_TOKEN_KEY \<mapsto> (rt, REFRESH_TOKEN_TTL)))
   \<or> (\<exists>t. t \<noteq> [] \<and> KV (snd (getToken w)) = (KV w)(ID_TOKEN_KEY \<mapsto> (t, ID_TOKEN_TTL)))
   \<or> (\<exists>rt t. rt \<noteq> [] \<and> t \<noteq> [] \<and> 
         KV (snd (getToken w)) =
           (KV w)(REFRESH_TOKEN_KEY \<mapsto> (rt, REFRESH_TOKEN_TTL), ID_TOKEN_KEY \<mapsto> (t, ID_TOKEN_TTL)))"
proof -
  obtain r1 w1 where g1: "getRefreshToken w = (r1, w1)"
    by fastforce
  obtain r w' where g: "getToken w = (r, w')"
    by fastforce
  show ?thesis
  proof (cases r1)
    case (Inl e)
    with g1 g have "w' = w1"
      by (simp add: getToken_def)
    then show ?thesis
      using getRefreshToken_store [OF g1] Inl g by auto
  next
    case (Inr rt)
    note s1 = getRefreshToken_store [OF g1, unfolded Inr, simplified]
    note s2 = getToken_store [OF g1 [unfolded Inr] g]
    show ?thesis
      using s1 s2 g
      by (cases r) (auto split: if_splits)
  qed
qed

subsection \<open>A cache miss in \<open>fetchWithCache\<close>\<close>

lemma fetchWithCache_no_token:
  assumes "\<not> cache_failing w" and "cache w u = None"
    and "getToken (log (CacheMatch u) w) = (Inl e, w2)"
  shows "fetchWithCache u w = (Inl e, w2)"
  using assms by (simp add: fetchWithCache_def getCache_miss)

lemma fetchWithCache_network_error:
  assumes "\<not> cache_failing w" and "cache w u = None"
    and "getToken (log (CacheMatch u) w) = (Inr tok, w2)"
    and "upstream w (api_request u tok) = None"
  shows "fetchWithCache u w = (Inl NetworkError, log (Fetch (api_request u tok)) w2)"
proof -
  have "upstream w2 = upstream w"
    using getToken_effect(3) [OF assms(3)] by (simp add: log_def)
  then show ?thesis
    using assms by (simp add: fetchWithCache_def getCache_miss fetch_def Let_def log_def)
qed

lemma fetchWithCache_miss:
  assumes "\<not> cache_failing w" and "cache w u = None"
    and "getToken (log (CacheMatch u) w) = (Inr tok, w2)"
    and "upstream w (api_request u tok) = Some m"
  shows "\<exists>res w'. fetchWithCache u w = (Inr res, w') \<and> seen res w' = m \<and> readable res w'
     \<and> trace w' = trace w2 @
          (if 200 \<le> status m \<and> status m \<le> 299
           then [Fetch (api_request u tok),
                 CachePut u (m\<lparr>headers := (headers m)
                                   (''cache-control'' \<mapsto> ''public, s-maxage=600'')\<rparr>)]
           else [Fetch (api_request u tok)])
     \<and> cache w' =
          (if 200 \<le> status m \<and> status m \<le> 299
           then (case cache_keeps w u
                        (m\<lparr>headers := (headers m)
                                   (''cache-control'' \<mapsto> ''public, s-maxage=600'')\<rparr>) of
                   None \<Rightarrow> cache w
                 | Some kept \<Rightarrow> (cache w)(u \<mapsto> kept))
           else cache w)
     \<and> KV w' = KV w2 \<and> cache_failing w' = cache_failing w \<and> upstream w' = upstream w
     \<and> cache_keeps w' = cache_keeps w
     \<and> JQUANTS_API_EMAIL w' = JQUANTS_API_EMAIL w \<and> JQUANTS_API_PW w' = JQUANTS_API_PW w"
proof -
  note e = getToken_effect [OF assms(3)]
  have up: "upstream w2 (api_request u tok) = Some m"
    using e(3) assms(4) by (simp add: log_def)
  from fetch_effect [OF up] obtain res w3 where
    f: "fetch (api_request u tok) w2 = (Inr res, w3)"
    and v: "valid_Response res w3" and r: "readable res w3" and s: "seen res w3 = m"
    and t: "trace w3 = trace w2 @ [Fetch (api_request u tok)]"
    and k: "KV w3 = KV w2" "cache w3 = cache w2" "cache_failing w3 = cache_failing w2"
      "upstream w3 = upstream w2" "cache_keeps w3 = cache_keeps w2"
      "JQUANTS_API_EMAIL w3 = JQUANTS_API_EMAIL w2"
      "JQUANTS_API_PW w3 = JQUANTS_API_PW w2"
    by blast
  have ok: "Response_ok res w3 \<longleftrightarrow> 200 \<le> status m \<and> status m \<le> 299"
    using s by (auto simp: Response_ok_def seen_def)
  have base: "fetchWithCache u w =
      (if Response_ok res w3
       then (case putCache u res w3 of (Inl e, w4) \<Rightarrow> (Inl e, w4) | (Inr _, w4) \<Rightarrow> (Inr res, w4))
       else (Inr res, w3))"
    using assms(1,2,3) f by (simp add: fetchWithCache_def getCache_miss)
  show ?thesis
  proof (cases "200 \<le> status m \<and> status m \<le> 299")
    case True
    from putCache_effect [OF v r, of u] obtain w4 where
      p: "putCache u res w3 = (Inr (), w4)" "seen res w4 = seen res w3" "readable res w4"
      "trace w4 = trace w3 @
          [CachePut u ((seen res w3)\<lparr>headers := (headers (seen res w3))
                                        (''cache-control'' \<mapsto> ''public, s-maxage=600'')\<rparr>)]"
      "cache w4 =
          (if cache_failing w3 then cache w3
           else (case cache_keeps w3 u
                        ((seen res w3)\<lparr>headers := (headers (seen res w3))
                                        (''cache-control'' \<mapsto> ''public, s-maxage=600'')\<rparr>) of
                   None \<Rightarrow> cache w3
                 | Some kept \<Rightarrow> (cache w3)(u \<mapsto> kept)))"
      "KV w4 = KV w3" "cache_failing w4 = cache_failing w3" "upstream w4 = upstream w3"
      "cache_keeps w4 = cache_keeps w3"
      "JQUANTS_API_EMAIL w4 = JQUANTS_API_EMAIL w3" "JQUANTS_API_PW w4 = JQUANTS_API_PW w3"
      by blast
    have "fetchWithCache u w = (Inr res, w4)"
      using base ok True p(1) by simp
    then show ?thesis
      using True p s t k e assms(1) by (simp add: log_def cong: option.case_cong)
  next
    case False
    have "fetchWithCache u w = (Inr res, w3)"
      using base ok False by simp
    then show ?thesis
      using False r s t k e by (simp add: log_def)
  qed
qed

subsection \<open>The calls \<open>get\<close> makes\<close>

lemma issued_append: "trace w' = trace w @ es \<Longrightarrow> issued w w' = es"
  by (simp add: issued_def)

lemma getToken_trace:
  "trace (snd (getToken w)) = trace w @ issued w (snd (getToken w))"
proof -
  obtain r1 w1 where g1: "getRefreshToken w = (r1, w1)"
    by fastforce
  obtain r w' where g: "getToken w = (r, w')"
    by fastforce
  show ?thesis
  proof (cases r1)
    case (Inl e)
    with g1 g have "w' = w1"
      by (simp add: getToken_def)
    then show ?thesis
      using getRefreshToken_store [OF g1] Inl g by (auto simp: issued_def)
  next
    case (Inr rt)
    note s1 = getRefreshToken_store [OF g1, unfolded Inr, simplified]
    note s2 = getToken_store [OF g1 [unfolded Inr] g]
    show ?thesis
      using s1 s2 g
      by (cases r) (auto simp: issued_def split: if_splits)
  qed
qed

lemma get_issued:
  assumes "\<And>u. P (CacheMatch u)" and "\<And>u m. P (CachePut u m)"
    and "P (KvGet REFRESH_TOKEN_KEY)" and "P (KvGet ID_TOKEN_KEY)"
    and "P (Fetch (auth_user_request w))"
    and "\<And>rt. rt \<noteq> [] \<Longrightarrow> P (Fetch (auth_refresh_request rt))"
    and "\<And>t. t \<noteq> [] \<Longrightarrow> P (KvPut REFRESH_TOKEN_KEY t REFRESH_TOKEN_TTL)"
    and "\<And>t. t \<noteq> [] \<Longrightarrow> P (KvPut ID_TOKEN_KEY t ID_TOKEN_TTL)"
    and "\<And>u tok. tok \<noteq> [] \<Longrightarrow> P (Fetch (api_request u tok))"
  shows "list_all P (issued w (snd (get endpoint w)))"
proof (cases "truthy (JQUANTS_API_EMAIL w) \<and> truthy (JQUANTS_API_PW w)")
  case False
  then show ?thesis
    by (auto simp: get_def checkConfig_def issued_def)
next
  case True
  let ?u = "API_BASE_URL @ endpoint"
  let ?w1 = "log (CacheMatch ?u) w"
  have g: "get endpoint w = fetchWithCache ?u w"
    using True by (simp add: get_configured)
  show ?thesis
  proof (cases "cache_failing w")
    case True
    then show ?thesis
      using g assms(1) by (simp add: fetchWithCache_def getCache_failing issued_def log_def)
  next
    case up: False
    show ?thesis
    proof (cases "cache w ?u")
      case (Some m)
      from getCache_hit [OF up Some] obtain res w' where
        "getCache ?u w = (Inr (Some res), w')" "trace w' = trace w @ [CacheMatch ?u]"
        by blast
      then show ?thesis
        using g assms(1) by (simp add: fetchWithCache_def issued_def)
    next
      case None
      obtain r w2 where gt: "getToken ?w1 = (r, w2)"
        by fastforce
      have rq: "auth_user_request ?w1 = auth_user_request w"
        by (simp add: auth_user_request_def log_def)
      define es where "es = issued ?w1 w2"
      have tk: "list_all P es"
        using getToken_issued [of P ?w1] assms(3-8) gt rq by (simp add: es_def)
      have tr: "trace w2 = trace w @ CacheMatch ?u # es"
        using getToken_trace [of ?w1] gt by (simp add: log_def es_def)
      show ?thesis
      proof (cases r)
        case (Inl e)
        have "get endpoint w = (Inl e, w2)"
          using fetchWithCache_no_token [OF up None gt [unfolded Inl]] g by simp
        then show ?thesis
          using issued_append [OF tr] tk assms(1) by simp
      next
        case (Inr tok)
        note gt' = gt [unfolded Inr]
        have ne: "tok \<noteq> []"
          using getToken_success(1) [OF gt'] .
        show ?thesis
        proof (cases "upstream w (api_request ?u tok)")
          case None
          have "get endpoint w = (Inl NetworkError, log (Fetch (api_request ?u tok)) w2)"
            using fetchWithCache_network_error [OF up \<open>cache w ?u = None\<close> gt' None] g
            by simp
          moreover have "trace (log (Fetch (api_request ?u tok)) w2) =
              trace w @ (CacheMatch ?u # es @ [Fetch (api_request ?u tok)])"
            using tr by (simp add: log_def)
          ultimately show ?thesis
            using issued_append tk assms(1) assms(9) [OF ne] by simp
        next
          case (Some m)
          from fetchWithCache_miss [OF up \<open>cache w ?u = None\<close> gt' Some] obtain res w' where
            f: "fetchWithCache ?u w = (Inr res, w')"
            and t: "trace w' = trace w2 @
              (if 200 \<le> status m \<and> status m \<le> 299
               then [Fetch (api_request ?u tok),
                     CachePut ?u (m\<lparr>headers := (headers m)
                                       (''cache-control'' \<mapsto> ''public, s-maxage=600'')\<rparr>)]
               else [Fetch (api_request ?u tok)])"
            by blast
          have "trace w' = trace w @ (CacheMatch ?u # es @
              (if 200 \<le> status m \<and> status m \<le> 299
               then [Fetch (api_request ?u tok),
                     CachePut ?u (m\<lparr>headers := (headers m)
                                       (''cache-control'' \<mapsto> ''public, s-maxage=600'')\<rparr>)]
               else [Fetch (api_request ?u tok)]))"
            using t tr by simp
          from issued_append [OF this] show ?thesis
            using f g tk assms(1,2) assms(9) [OF ne] by simp
        qed
      qed
    qed
  qed
qed

section \<open>The claims\<close>

subsection \<open>C1: a request served from the response cache\<close>

text \<open>
  C1, as the claim states it, fails in one respect: the two debug headers are not both
  present on every hit. \<open>setDebugHeaders\<close> writes \<^verbatim>\<open>x-proxy-cache-age\<close> only under
  \<^verbatim>\<open>if (date)\<close>. For a cached entry without a \<^verbatim>\<open>date\<close> header the response that \<open>get\<close>
  returns has no age header, while the max-age header is there.
\<close>

theorem undated_hit_has_no_age_header:
  "truthy (JQUANTS_API_EMAIL undated_world) \<and> truthy (JQUANTS_API_PW undated_world)
   \<and> \<not> cache_failing undated_world
   \<and> cache undated_world (API_BASE_URL @ ''/v1/x'') = Some undated_entry
   \<and> fst (get ''/v1/x'' undated_world) = Inr 1
   \<and> headers (seen 1 (snd (get ''/v1/x'' undated_world))) X_PROXY_CACHE_AGE_KEY = None
   \<and> headers (seen 1 (snd (get ''/v1/x'' undated_world))) X_PROXY_CACHE_MAXAGE_KEY = Some ''600''"
  by (simp add: undated_world_def demo_world_def undated_entry_def API_BASE_URL_def
      get_def checkConfig_def fetchWithCache_def getCache_def caches_match_def
      setDebugHeaders_def heap_defs lowercase_names CACHE_MAX_AGE_string
      X_PROXY_CACHE_AGE_KEY_def X_PROXY_CACHE_MAXAGE_KEY_def Let_def
      del: Number_toString.simps)

text \<open>
  C1, amended: for a configured worker and a request whose URL has a live entry \<open>m\<close> in the
  response cache (the backend answering), \<open>get\<close> returns a readable response with the
  entry's status and body and with the entry's headers, except that \<^verbatim>\<open>cache-control\<close> is
  removed, \<^verbatim>\<open>x-proxy-cache-maxage\<close> is present and equal to the TTL constant (600), and
  \<^verbatim>\<open>x-proxy-cache-age\<close> is present whenever the entry has a non-empty \<^verbatim>\<open>date\<close> header
  (otherwise it is left as the entry has it). The one call made is the cache lookup: no
  access to the durable store, no upstream call; store and cache are unchanged.
\<close>

theorem get_cache_hit:
  assumes "truthy (JQUANTS_API_EMAIL w)" and "truthy (JQUANTS_API_PW w)"
    and "\<not> cache_failing w" and "cache w (API_BASE_URL @ endpoint) = Some m"
  shows "\<exists>res w'. get endpoint w = (Inr res, w')
     \<and> status (seen res w') = status m \<and> payload (seen res w') = payload m \<and> readable res w'
     \<and> (\<forall>k. k \<notin> {''cache-control'', ''x-proxy-cache-age'', ''x-proxy-cache-maxage''} \<longrightarrow>
            headers (seen res w') k = headers m k)
     \<and> headers (seen res w') ''cache-control'' = None
     \<and> headers (seen res w') ''x-proxy-cache-maxage'' = Some (Number_toString (Num CACHE_MAX_AGE))
     \<and> (truthy (headers m ''date'') \<longrightarrow> headers (seen res w') ''x-proxy-cache-age'' \<noteq> None)
     \<and> (\<not> truthy (headers m ''date'') \<longrightarrow>
            headers (seen res w') ''x-proxy-cache-age'' = headers m ''x-proxy-cache-age'')
     \<and> issued w w' = [CacheMatch (API_BASE_URL @ endpoint)]
     \<and> KV w' = KV w \<and> cache w' = cache w"
proof -
  from getCache_hit [OF assms(3,4)] obtain res w' where
    g: "getCache (API_BASE_URL @ endpoint) w = (Inr (Some res), w')"
    and rest: "trace w' = trace w @ [CacheMatch (API_BASE_URL @ endpoint)]"
      "KV w' = KV w" "cache w' = cache w" "status (seen res w') = status m"
      "payload (seen res w') = payload m" "readable res w'"
    and h: "headers (seen res w') =
          (if truthy (headers m ''date'')
           then ((headers m)(''cache-control'' := None))
                  (''x-proxy-cache-age'' \<mapsto>
                     Number_toString
                       (case Date_parse w (the (headers m ''date'')) of
                          None \<Rightarrow> NaN
                        | Some t \<Rightarrow> Num ((Date_now w - t) div 1000)))
           else (headers m)(''cache-control'' := None))(''x-proxy-cache-maxage'' \<mapsto> ''600'')"
    by blast
  have "get endpoint w = (Inr res, w')"
    using g by (simp add: get_configured assms(1,2) fetchWithCache_def)
  then show ?thesis
    using rest h by (simp add: CACHE_MAX_AGE_string issued_def del: Number_toString.simps)
qed

theorem get_cache_hit_witness:
  "truthy (JQUANTS_API_EMAIL hit_world) \<and> truthy (JQUANTS_API_PW hit_world)
   \<and> \<not> cache_failing hit_world
   \<and> cache hit_world (API_BASE_URL @ ''/v1/x'') = Some demo_entry
   \<and> truthy (headers demo_entry ''date'')
   \<and> (\<exists>res w'. get ''/v1/x'' hit_world = (Inr res, w')
     \<and> status (seen res w') = status demo_entry
     \<and> payload (seen res w') = payload demo_entry \<and> readable res w'
     \<and> (\<forall>k. k \<notin> {''cache-control'', ''x-proxy-cache-age'', ''x-proxy-cache-maxage''} \<longrightarrow>
            headers (seen res w') k = headers demo_entry k)
     \<and> headers (seen res w') ''cache-control'' = None
     \<and> headers (seen res w') ''x-proxy-cache-maxage'' = Some (Number_toString (Num CACHE_MAX_AGE))
     \<and> (truthy (headers demo_entry ''date'') \<longrightarrow>
            headers (seen res w') ''x-proxy-cache-age'' \<noteq> None)
     \<and> (\<not> truthy (headers demo_entry ''date'') \<longrightarrow>
            headers (seen res w') ''x-proxy-cache-age'' = headers demo_entry ''x-proxy-cache-age'')
     \<and> issued hit_world w' = [CacheMatch (API_BASE_URL @ ''/v1/x'')]
     \<and> KV w' = KV hit_world \<and> cache w' = cache hit_world)"
proof -
  have h: "truthy (JQUANTS_API_EMAIL hit_world)" "truthy (JQUANTS_API_PW hit_world)"
    "\<not> cache_failing hit_world" "cache hit_world (API_BASE_URL @ ''/v1/x'') = Some demo_entry"
    by (simp_all add: hit_world_def demo_world_def API_BASE_URL_def)
  have d: "truthy (headers demo_entry ''date'')"
    by (simp add: demo_entry_def demo_date_def)
  show ?thesis
    by (intro conjI h d get_cache_hit [OF h])
qed

subsection \<open>C2: which upstream responses are stored\<close>

text \<open>
  C2, as the claim states it, fails in one respect: a cache-control opt-out on the
  upstream response does not keep a successful response out of the cache. \<open>fetchWithCache\<close>
  calls \<open>putCache\<close> for every response whose status is 2xx, and \<open>putCache\<close> overwrites the
  \<^verbatim>\<open>Cache-Control\<close> header of the copy it stores. On the sample world the upstream answers
  \<^verbatim>\<open>/v1/x\<close> with status 200 and \<^verbatim>\<open>cache-control: no-store\<close>; the copy that reaches the
  cache is marked \<^verbatim>\<open>public, s-maxage=600\<close>, the backend has no reason left to turn it
  down, and after \<open>get\<close> the cache holds it.
\<close>

theorem opted_out_response_is_stored:
  "cache demo_world ''https://api.jquants.com/v1/x'' = None
   \<and> upstream demo_world (api_request ''https://api.jquants.com/v1/x'' ''id-1'') = Some demo_answer
   \<and> status demo_answer = 200
   \<and> headers demo_answer ''cache-control'' = Some ''no-store''
   \<and> fst (get ''/v1/x'' demo_world) = Inr 2
   \<and> seen 2 (snd (get ''/v1/x'' demo_world)) = demo_answer
   \<and> filter is_CachePut (trace (snd (get ''/v1/x'' demo_world))) =
        [CachePut ''https://api.jquants.com/v1/x''
           (demo_answer\<lparr>headers := (headers demo_answer)
                                     (''cache-control'' \<mapsto> ''public, s-maxage=600'')\<rparr>)]
   \<and> map_option status (cache (snd (get ''/v1/x'' demo_world)) ''https://api.jquants.com/v1/x'')
        = Some 200
   \<and> map_option payload (cache (snd (get ''/v1/x'' demo_world)) ''https://api.jquants.com/v1/x'')
        = Some ''{x: 1}''
   \<and> map_option (\<lambda>m. headers m ''cache-control'')
        (cache (snd (get ''/v1/x'' demo_world)) ''https://api.jquants.com/v1/x'')
        = Some (Some ''public, s-maxage=600'')"
  by (simp add: demo_defs source_defs heap_defs Let_def lowercase_names CACHE_MAX_AGE_string
      del: Number_toString.simps)

text \<open>
  C2, amended: on a cache miss, with a token obtained and an upstream response \<open>m\<close>
  received, \<open>get\<close> returns \<open>m\<close> to the caller unmodified and readable, and \<open>m\<close> is handed to
  the response cache (one \<^verbatim>\<open>caches.default.put\<close>) if and only if its status is 2xx,
  whatever cache-control header it carried: what is handed over is \<open>m\<close> with
  \<^verbatim>\<open>cache-control\<close> set to \<^verbatim>\<open>public, s-maxage=600\<close>, and the cache afterwards holds for
  the URL what the backend keeps of that (its old content where the backend keeps
  nothing). For a status outside 2xx no store is issued and the cache is left as it was,
  so the identical call made next misses again and issues the same upstream request
  again.
\<close>

theorem upstream_response_put_iff_ok:
  assumes "truthy (JQUANTS_API_EMAIL w)" and "truthy (JQUANTS_API_PW w)"
    and "\<not> cache_failing w" and "cache w (API_BASE_URL @ endpoint) = None"
    and "getToken (log (CacheMatch (API_BASE_URL @ endpoint)) w) = (Inr tok, w2)"
    and "upstream w (api_request (API_BASE_URL @ endpoint) tok) = Some m"
  shows "\<exists>res w'. get endpoint w = (Inr res, w') \<and> seen res w' = m \<and> readable res w'
     \<and> filter is_CachePut (issued w w') =
          (if 200 \<le> status m \<and> status m \<le> 299
           then [CachePut (API_BASE_URL @ endpoint)
                   (m\<lparr>headers := (headers m)(''cache-control'' \<mapsto> ''public, s-maxage=600'')\<rparr>)]
           else [])
     \<and> (200 \<le> status m \<and> status m \<le> 299 \<longrightarrow>
           issued w2 w' =
             [Fetch (api_request (API_BASE_URL @ endpoint) tok),
              CachePut (API_BASE_URL @ endpoint)
                (m\<lparr>headers := (headers m)(''cache-control'' \<mapsto> ''public, s-maxage=600'')\<rparr>)]
         \<and> cache w' =
             (case cache_keeps w (API_BASE_URL @ endpoint)
                     (m\<lparr>headers := (headers m)
                                    (''cache-control'' \<mapsto> ''public, s-maxage=600'')\<rparr>) of
                None \<Rightarrow> cache w
              | Some kept \<Rightarrow> (cache w)(API_BASE_URL @ endpoint \<mapsto> kept)))
     \<and> (\<not> (200 \<le> status m \<and> status m \<le> 299) \<longrightarrow>
           cache w' = cache w
         \<and> issued w2 w' = [Fetch (api_request (API_BASE_URL @ endpoint) tok)]
         \<and> issued w' (snd (get endpoint w')) =
             [CacheMatch (API_BASE_URL @ endpoint), KvGet REFRESH_TOKEN_KEY, KvGet ID_TOKEN_KEY,
              Fetch (api_request (API_BASE_URL @ endpoint) tok)])"
proof -
  let ?u = "API_BASE_URL @ endpoint"
  let ?w1 = "log (CacheMatch ?u) w"
  let ?stored = "m\<lparr>headers := (headers m)(''cache-control'' \<mapsto> ''public, s-maxage=600'')\<rparr>"
  from fetchWithCache_miss [OF assms(3-6)] obtain res w' where
    f: "fetchWithCache ?u w = (Inr res, w')" and s: "seen res w' = m" and r: "readable res w'"
    and t: "trace w' = trace w2 @
          (if 200 \<le> status m \<and> status m \<le> 299
           then [Fetch (api_request ?u tok), CachePut ?u ?stored]
           else [Fetch (api_request ?u tok)])"
    and c: "cache w' =
          (if 200 \<le> status m \<and> status m \<le> 299
           then (case cache_keeps w ?u ?stored of
                   None \<Rightarrow> cache w
                 | Some kept \<Rightarrow> (cache w)(?u \<mapsto> kept))
           else cache w)"
    and k: "KV w' = KV w2" "cache_failing w' = cache_failing w" "upstream w' = upstream w"
      "JQUANTS_API_EMAIL w' = JQUANTS_API_EMAIL w" "JQUANTS_API_PW w' = JQUANTS_API_PW w"
    by blast
  have g: "get endpoint w = (Inr res, w')"
    using f assms(1,2) by (simp add: get_configured)
  define es where "es = issued ?w1 w2"
  have "list_all (\<lambda>e. \<not> is_CachePut e) (issued ?w1 (snd (getToken ?w1)))"
    by (rule getToken_issued) simp_all
  then have quiet: "filter is_CachePut es = []"
    using assms(5) by (simp add: es_def filter_empty_conv list_all_iff)
  have tr: "trace w2 = trace w @ CacheMatch ?u # es"
    using getToken_trace [of ?w1] assms(5) by (simp add: log_def es_def)
  have "trace w' = trace w @ (CacheMatch ?u # es @
          (if 200 \<le> status m \<and> status m \<le> 299
           then [Fetch (api_request ?u tok), CachePut ?u ?stored]
           else [Fetch (api_request ?u tok)]))"
    using t tr by simp
  from issued_append [OF this] quiet
  have puts: "filter is_CachePut (issued w w') =
          (if 200 \<le> status m \<and> status m \<le> 299 then [CachePut ?u ?stored] else [])"
    by simp
  have since: "issued w2 w' =
          (if 200 \<le> status m \<and> status m \<le> 299
           then [Fetch (api_request ?u tok), CachePut ?u ?stored]
           else [Fetch (api_request ?u tok)])"
    using t by (rule issued_append)
  have again: "issued w' (snd (get endpoint w')) =
             [CacheMatch ?u, KvGet REFRESH_TOKEN_KEY, KvGet ID_TOKEN_KEY,
              Fetch (api_request ?u tok)]"
    if bad: "\<not> (200 \<le> status m \<and> status m \<le> 299)"
  proof -
    from getToken_success [OF assms(5)] obtain n rt n' where
      tk: "tok \<noteq> []" "KV w2 ID_TOKEN_KEY = Some (tok, n)"
      "KV w2 REFRESH_TOKEN_KEY = Some (rt, n')" "rt \<noteq> []"
      by blast
    let ?v1 = "log (CacheMatch ?u) w'"
    have kv: "KV ?v1 ID_TOKEN_KEY = Some (tok, n)" "KV ?v1 REFRESH_TOKEN_KEY = Some (rt, n')"
      using tk k(1) by (simp_all add: log_def)
    note gt = getToken_cached [OF kv(2) tk(4) kv(1) tk(1)]
    have miss: "\<not> cache_failing w'" "cache w' ?u = None"
      using k(2) c bad assms(3,4) by simp_all
    have up: "upstream w' (api_request ?u tok) = Some m"
      using k(3) assms(6) by simp
    from fetchWithCache_miss [OF miss gt up] obtain res2 w'' where
      f2: "fetchWithCache ?u w' = (Inr res2, w'')"
      and t2: "trace w'' = trace (log (KvGet ID_TOKEN_KEY) (log (KvGet REFRESH_TOKEN_KEY) ?v1)) @
          (if 200 \<le> status m \<and> status m \<le> 299
           then [Fetch (api_request ?u tok), CachePut ?u ?stored]
           else [Fetch (api_request ?u tok)])"
      by blast
    have "get endpoint w' = (Inr res2, w'')"
      using f2 k(4,5) assms(1,2) by (simp add: get_configured)
    moreover have "trace w'' = trace w' @
        [CacheMatch ?u, KvGet REFRESH_TOKEN_KEY, KvGet ID_TOKEN_KEY, Fetch (api_request ?u tok)]"
      using t2 bad by (simp add: log_def)
    ultimately show ?thesis
      using issued_append by simp
  qed
  show ?thesis
    using g s r c puts since again by auto
qed

theorem upstream_response_put_iff_ok_witness:
  "truthy (JQUANTS_API_EMAIL warm_world) \<and> truthy (JQUANTS_API_PW warm_world)
   \<and> \<not> cache_failing warm_world
   \<and> cache warm_world (API_BASE_URL @ ''/v1/missing'') = None
   \<and> fst (getToken (log (CacheMatch (API_BASE_URL @ ''/v1/missing'')) warm_world)) = Inr ''id-1''
   \<and> upstream warm_world (api_request (API_BASE_URL @ ''/v1/missing'') ''id-1'') = Some demo_not_found
   \<and> status demo_not_found = 404
   \<and> (\<exists>res w'. get ''/v1/missing'' warm_world = (Inr res, w') \<and> seen res w' = demo_not_found
        \<and> filter is_CachePut (issued warm_world w') = []
        \<and> cache w' = cache warm_world
        \<and> issued w' (snd (get ''/v1/missing'' w')) =
             [CacheMatch (API_BASE_URL @ ''/v1/missing''), KvGet REFRESH_TOKEN_KEY,
              KvGet ID_TOKEN_KEY, Fetch (api_request (API_BASE_URL @ ''/v1/missing'') ''id-1'')])
   \<and> cache warm_world (API_BASE_URL @ ''/v1/x'') = None
   \<and> fst (getToken (log (CacheMatch (API_BASE_URL @ ''/v1/x'')) warm_world)) = Inr ''id-1''
   \<and> upstream warm_world (api_request (API_BASE_URL @ ''/v1/x'') ''id-1'') = Some demo_answer
   \<and> status demo_answer = 200
   \<and> cache_keeps warm_world (API_BASE_URL @ ''/v1/x'')
        (demo_answer\<lparr>headers := (headers demo_answer)
                                  (''cache-control'' \<mapsto> ''public, s-maxage=600'')\<rparr>)
        = Some (demo_answer\<lparr>headers := (headers demo_answer)
                                  (''cache-control'' \<mapsto> ''public, s-maxage=600'')\<rparr>)
   \<and> (\<exists>res w'. get ''/v1/x'' warm_world = (Inr res, w') \<and> seen res w' = demo_answer
        \<and> filter is_CachePut (issued warm_world w') =
             [CachePut (API_BASE_URL @ ''/v1/x'')
                (demo_answer\<lparr>headers := (headers demo_answer)
                                  (''cache-control'' \<mapsto> ''public, s-maxage=600'')\<rparr>)]
        \<and> cache w' (API_BASE_URL @ ''/v1/x'') =
             Some (demo_answer\<lparr>headers := (headers demo_answer)
                                  (''cache-control'' \<mapsto> ''public, s-maxage=600'')\<rparr>))
   \<and> cache warm_world (API_BASE_URL @ ''/v1/partial'') = None
   \<and> fst (getToken (log (CacheMatch (API_BASE_URL @ ''/v1/partial'')) warm_world)) = Inr ''id-1''
   \<and> upstream warm_world (api_request (API_BASE_URL @ ''/v1/partial'') ''id-1'') = Some demo_partial
   \<and> status demo_partial = 206
   \<and> cache_keeps warm_world (API_BASE_URL @ ''/v1/partial'')
        (demo_partial\<lparr>headers := (headers demo_partial)
                                  (''cache-control'' \<mapsto> ''public, s-maxage=600'')\<rparr>) = None
   \<and> (\<exists>res w'. get ''/v1/partial'' warm_world = (Inr res, w') \<and> seen res w' = demo_partial
        \<and> filter is_CachePut (issued warm_world w') =
             [CachePut (API_BASE_URL @ ''/v1/partial'')
                (demo_partial\<lparr>headers := (headers demo_partial)
                                  (''cache-control'' \<mapsto> ''public, s-maxage=600'')\<rparr>)]
        \<and> cache w' = cache warm_world)"
proof -
  have h: "truthy (JQUANTS_API_EMAIL warm_world)" "truthy (JQUANTS_API_PW warm_world)"
    "\<not> cache_failing warm_world"
    by (simp_all add: warm_world_def demo_world_def)
  have kv: "KV warm_world REFRESH_TOKEN_KEY = Some (''rt-1'', 518400)" "''rt-1'' \<noteq> []"
    "KV warm_world ID_TOKEN_KEY = Some (''id-1'', 82800)" "''id-1'' \<noteq> []"
    by (simp_all add: warm_world_def REFRESH_TOKEN_KEY_def ID_TOKEN_KEY_def)
  have tok: "getToken (log (CacheMatch u) warm_world) =
      (Inr ''id-1'', log (KvGet ID_TOKEN_KEY) (log (KvGet REFRESH_TOKEN_KEY)
         (log (CacheMatch u) warm_world)))" for u
    by (rule getToken_cached [where n = 518400 and k = 82800 and rt = "''rt-1''"])
       (simp_all add: log_def kv)
  have m1: "cache warm_world (API_BASE_URL @ ''/v1/missing'') = None"
    "upstream warm_world (api_request (API_BASE_URL @ ''/v1/missing'') ''id-1'') = Some demo_not_found"
    by (simp_all add: warm_world_def demo_world_def demo_upstream_def api_request_def
        API_BASE_URL_def)
  have s1: "status demo_not_found = 404"
    by (simp add: demo_not_found_def)
  have m2: "cache warm_world (API_BASE_URL @ ''/v1/x'') = None"
    "upstream warm_world (api_request (API_BASE_URL @ ''/v1/x'') ''id-1'') = Some demo_answer"
    by (simp_all add: warm_world_def demo_world_def demo_upstream_def api_request_def
        API_BASE_URL_def)
  have s2: "status demo_answer = 200"
    by (simp add: demo_answer_def)
  have k2: "cache_keeps warm_world (API_BASE_URL @ ''/v1/x'')
        (demo_answer\<lparr>headers := (headers demo_answer)
                                  (''cache-control'' \<mapsto> ''public, s-maxage=600'')\<rparr>)
        = Some (demo_answer\<lparr>headers := (headers demo_answer)
                                  (''cache-control'' \<mapsto> ''public, s-maxage=600'')\<rparr>)"
    by (simp add: warm_world_def demo_world_def demo_cache_keeps_def demo_answer_def)
  have m3: "cache warm_world (API_BASE_URL @ ''/v1/partial'') = None"
    "upstream warm_world (api_request (API_BASE_URL @ ''/v1/partial'') ''id-1'') = Some demo_partial"
    by (simp_all add: warm_world_def demo_world_def demo_upstream_def api_request_def
        API_BASE_URL_def)
  have s3: "status demo_partial = 206"
    by (simp add: demo_partial_def)
  have k3: "cache_keeps warm_world (API_BASE_URL @ ''/v1/partial'')
        (demo_partial\<lparr>headers := (headers demo_partial)
                                  (''cache-control'' \<mapsto> ''public, s-maxage=600'')\<rparr>) = None"
    by (simp add: warm_world_def demo_world_def demo_cache_keeps_def demo_partial_def)
  have a: "\<exists>res w'. get ''/v1/missing'' warm_world = (Inr res, w') \<and> seen res w' = demo_not_found
        \<and> filter is_CachePut (issued warm_world w') = []
        \<and> cache w' = cache warm_world
        \<and> issued w' (snd (get ''/v1/missing'' w')) =
             [CacheMatch (API_BASE_URL @ ''/v1/missing''), KvGet REFRESH_TOKEN_KEY,
              KvGet ID_TOKEN_KEY, Fetch (api_request (API_BASE_URL @ ''/v1/missing'') ''id-1'')]"
    using upstream_response_put_iff_ok [OF h m1(1) tok m1(2)]
    by (simp only: s1) auto
  have b: "\<exists>res w'. get ''/v1/x'' warm_world = (Inr res, w') \<and> seen res w' = demo_answer
        \<and> filter is_CachePut (issued warm_world w') =
             [CachePut (API_BASE_URL @ ''/v1/x'')
                (demo_answer\<lparr>headers := (headers demo_answer)
                                  (''cache-control'' \<mapsto> ''public, s-maxage=600'')\<rparr>)]
        \<and> cache w' (API_BASE_URL @ ''/v1/x'') =
             Some (demo_answer\<lparr>headers := (headers demo_answer)
                                  (''cache-control'' \<mapsto> ''public, s-maxage=600'')\<rparr>)"
    using upstream_response_put_iff_ok [OF h m2(1) tok m2(2)]
    by (simp only: s2 k2) auto
  have c: "\<exists>res w'. get ''/v1/partial'' warm_world = (Inr res, w') \<and> seen res w' = demo_partial
        \<and> filter is_CachePut (issued warm_world w') =
             [CachePut (API_BASE_URL @ ''/v1/partial'')
                (demo_partial\<lparr>headers := (headers demo_partial)
                                  (''cache-control'' \<mapsto> ''public, s-maxage=600'')\<rparr>)]
        \<and> cache w' = cache warm_world"
    using upstream_response_put_iff_ok [OF h m3(1) tok m3(2)]
    by (simp only: s3 k3) auto
  show ?thesis
    by (intro conjI h m1 s1 a m2 s2 k2 b m3 s3 k3 c) (simp_all add: tok)
qed

subsection \<open>C3: a cached ID token\<close>

text \<open>
  C3 does not hold of the code. \<open>getToken\<close> resolves the refresh token on its first line,
  before it asks the store for the ID token, although the refresh token is needed only
  when a new ID token has to be acquired. With an ID token in the store and no refresh
  token: where the upstream accepts the login, the call returns the cached ID token but
  has logged in and written a refresh token first; where the upstream turns the login
  down, the call fails, the cached ID token notwithstanding.
\<close>

theorem getToken_resolves_refresh_token_first:
  "KV expired_refresh_world ID_TOKEN_KEY = Some (''id-0'', 82800)
   \<and> fst (getToken expired_refresh_world) = Inr ''id-0''
   \<and> trace (snd (getToken expired_refresh_world)) =
       [KvGet ''refresh_token'', Fetch (auth_user_request expired_refresh_world),
        KvPut ''refresh_token'' ''rt-1'' 518400, KvGet ''id_token'']
   \<and> KV stale_refresh_world ID_TOKEN_KEY = Some (''id-0'', 82800)
   \<and> fst (getToken stale_refresh_world) = Inl RefreshTokenNotFound
   \<and> trace (snd (getToken stale_refresh_world)) =
       [KvGet ''refresh_token'', Fetch (auth_user_request stale_refresh_world)]"
  by (simp add: demo_defs source_defs heap_defs Let_def)

subsection \<open>C4: an error of the cache backend on read\<close>

text \<open>
  C4, as the claim states it, fails: \<open>getCache\<close> awaits \<^verbatim>\<open>caches.default.match\<close> with no
  handler around it, and neither \<open>fetchWithCache\<close> nor \<open>get\<close> catches anything. In a world
  whose cache backend is down, \<open>getCache\<close> does not answer "miss" but fails, \<open>get\<close> fails
  with the same error, and the only call recorded is the cache lookup: no token work and
  no upstream call follow.
\<close>

theorem cache_error_is_not_a_miss:
  "cache_failing down_world
   \<and> truthy (JQUANTS_API_EMAIL down_world) \<and> truthy (JQUANTS_API_PW down_world)
   \<and> fst (getCache ''https://api.jquants.com/v1/x'' down_world) = Inl CacheBackendError
   \<and> fst (getCache ''https://api.jquants.com/v1/x'' down_world) \<noteq> Inr None
   \<and> fst (get ''/v1/x'' down_world) = Inl CacheBackendError
   \<and> trace (snd (get ''/v1/x'' down_world)) = [CacheMatch ''https://api.jquants.com/v1/x'']"
  by (simp add: down_world_def demo_world_def get_def checkConfig_def fetchWithCache_def
      getCache_def caches_match_def log_def API_BASE_URL_def Let_def)

text \<open>
  C4, amended: when the cache backend raises an error on the read, \<open>getCache\<close> fails with
  that error after the one lookup, and a configured \<open>get\<close> passes the error on to its caller;
  the lookup is the only call made, the store and the cache are left as they were.
\<close>

theorem cache_error_propagates:
  assumes "cache_failing w"
    and "truthy (JQUANTS_API_EMAIL w)" and "truthy (JQUANTS_API_PW w)"
  shows "getCache (API_BASE_URL @ endpoint) w =
           (Inl CacheBackendError, log (CacheMatch (API_BASE_URL @ endpoint)) w)
     \<and> get endpoint w = (Inl CacheBackendError, log (CacheMatch (API_BASE_URL @ endpoint)) w)
     \<and> issued w (snd (get endpoint w)) = [CacheMatch (API_BASE_URL @ endpoint)]
     \<and> KV (snd (get endpoint w)) = KV w \<and> cache (snd (get endpoint w)) = cache w"
  using assms
  by (simp add: get_configured fetchWithCache_def getCache_failing issued_def log_def)

theorem cache_error_propagates_witness:
  "cache_failing down_world
   \<and> truthy (JQUANTS_API_EMAIL down_world) \<and> truthy (JQUANTS_API_PW down_world)
   \<and> get ''/v1/x'' down_world =
       (Inl CacheBackendError, log (CacheMatch ''https://api.jquants.com/v1/x'') down_world)
   \<and> issued down_world (snd (get ''/v1/x'' down_world)) =
       [CacheMatch ''https://api.jquants.com/v1/x'']"
proof -
  have h: "cache_failing down_world" "truthy (JQUANTS_API_EMAIL down_world)"
    "truthy (JQUANTS_API_PW down_world)"
    by (simp_all add: down_world_def demo_world_def)
  have u: "API_BASE_URL @ ''/v1/x'' = ''https://api.jquants.com/v1/x''"
    by (simp add: API_BASE_URL_def)
  note t = cache_error_propagates [OF h, of "''/v1/x''", unfolded u]
  show ?thesis
    by (intro conjI h conjunct1 [OF conjunct2 [OF t]]
        conjunct1 [OF conjunct2 [OF conjunct2 [OF t]]])
qed

subsection \<open>C5: missing credentials\<close>

text \<open>
  C5. When the account identifier or the secret is missing from the configuration (not
  set, or the empty string), \<open>get\<close> fails at once with the configuration error and leaves the
  world exactly as it was: no cache lookup, no access to the durable store, no upstream
  call, nothing recorded in the trace.
\<close>

theorem get_without_credentials_fails_first:
  assumes "\<not> truthy (JQUANTS_API_EMAIL w) \<or> \<not> truthy (JQUANTS_API_PW w)"
  shows "get endpoint w = (Inl ConfigError, w) \<and> issued w (snd (get endpoint w)) = []"
  using assms by (auto simp: get_def checkConfig_def issued_def)

theorem get_without_credentials_fails_first_witness:
  "\<not> truthy (JQUANTS_API_PW unconfigured_world)
   \<and> cache unconfigured_world ''https://api.jquants.com/v1/x'' = Some demo_entry
   \<and> get ''/v1/x'' unconfigured_world = (Inl ConfigError, unconfigured_world)
   \<and> issued unconfigured_world (snd (get ''/v1/x'' unconfigured_world)) = []"
proof -
  have h: "\<not> truthy (JQUANTS_API_PW unconfigured_world)"
    by (simp add: unconfigured_world_def)
  have c: "cache unconfigured_world ''https://api.jquants.com/v1/x'' = Some demo_entry"
    by (simp add: unconfigured_world_def hit_world_def)
  from h have "\<not> truthy (JQUANTS_API_EMAIL unconfigured_world)
      \<or> \<not> truthy (JQUANTS_API_PW unconfigured_world)" ..
  note t = get_without_credentials_fails_first [OF this, of "''/v1/x''"]
  show ?thesis
    by (intro conjI h c conjunct1 [OF t] conjunct2 [OF t])
qed

subsection \<open>C6: a failed token acquisition stores nothing\<close>



subsection \<open>C7: the debug headers\<close>

text \<open>
  C7. On a cache hit for a stored entry \<open>m\<close>: if \<open>m\<close> has a (non-empty) \<^verbatim>\<open>date\<close> header that
  parses to the time \<open>T\<close> (in milliseconds), the response carries \<^verbatim>\<open>x-proxy-cache-age\<close> with
  the decimal form of \<open>floor ((now - T) / 1000)\<close>; so a read at \<open>T\<close> plus \<open>k\<close> whole seconds
  plus a rest below one second gives the age \<open>k\<close>. If \<open>m\<close> has no \<^verbatim>\<open>date\<close> header, the age
  header is not written (the response has it only if the entry itself had one, and has
  none if the entry has none). \<^verbatim>\<open>x-proxy-cache-maxage\<close> is always set, to the decimal form
  of the TTL constant, which is 600.
\<close>

theorem debug_headers_on_hit:
  assumes "\<not> cache_failing w" and "cache w u = Some m"
  shows "\<exists>res w'. getCache u w = (Inr (Some res), w')
     \<and> headers (seen res w') X_PROXY_CACHE_MAXAGE_KEY = Some (Number_toString (Num CACHE_MAX_AGE))
     \<and> Number_toString (Num CACHE_MAX_AGE) = ''600''
     \<and> (headers m ''date'' = Some d \<and> d \<noteq> [] \<and> Date_parse w d = Some T \<longrightarrow>
           headers (seen res w') X_PROXY_CACHE_AGE_KEY =
             Some (Number_toString (Num ((Date_now w - T) div 1000)))
           \<and> (Date_now w = T + 1000 * k + r \<and> 0 \<le> r \<and> r < 1000 \<longrightarrow>
                 headers (seen res w') X_PROXY_CACHE_AGE_KEY = Some (Number_toString (Num k))))
     \<and> (headers m ''date'' = None \<longrightarrow>
           headers (seen res w') X_PROXY_CACHE_AGE_KEY = headers m X_PROXY_CACHE_AGE_KEY
           \<and> (headers m X_PROXY_CACHE_AGE_KEY = None \<longrightarrow>
                headers (seen res w') X_PROXY_CACHE_AGE_KEY = None))"
proof -
  from getCache_hit [OF assms] obtain res w' where
    g: "getCache u w = (Inr (Some res), w')"
    and h: "headers (seen res w') =
          (if truthy (headers m ''date'')
           then ((headers m)(''cache-control'' := None))
                  (''x-proxy-cache-age'' \<mapsto>
                     Number_toString
                       (case Date_parse w (the (headers m ''date'')) of
                          None \<Rightarrow> NaN
                        | Some t \<Rightarrow> Num ((Date_now w - t) div 1000)))
           else (headers m)(''cache-control'' := None))(''x-proxy-cache-maxage'' \<mapsto> ''600'')"
    by blast
  have secs: "0 \<le> r \<Longrightarrow> r < 1000 \<Longrightarrow> (T + 1000 * k + r - T) div 1000 = k"
    by simp
  show ?thesis
    using g h secs
    by (auto simp: CACHE_MAX_AGE_string X_PROXY_CACHE_AGE_KEY_def X_PROXY_CACHE_MAXAGE_KEY_def
        simp del: Number_toString.simps)
qed

theorem debug_headers_on_hit_witness:
  "\<not> cache_failing hit_world
   \<and> cache hit_world ''https://api.jquants.com/v1/x'' = Some demo_entry
   \<and> headers demo_entry ''date'' = Some demo_date \<and> demo_date \<noteq> []
   \<and> Date_parse hit_world demo_date = Some 1700000000000
   \<and> Date_now hit_world = 1700000000000 + 1000 * 4 + 500
   \<and> (\<exists>res w'. getCache ''https://api.jquants.com/v1/x'' hit_world = (Inr (Some res), w')
        \<and> headers (seen res w') X_PROXY_CACHE_AGE_KEY = Some ''4''
        \<and> headers (seen res w') X_PROXY_CACHE_MAXAGE_KEY = Some ''600'')
   \<and> \<not> cache_failing undated_world
   \<and> cache undated_world ''https://api.jquants.com/v1/x'' = Some undated_entry
   \<and> headers undated_entry ''date'' = None
   \<and> headers undated_entry X_PROXY_CACHE_AGE_KEY = None
   \<and> (\<exists>res w'. getCache ''https://api.jquants.com/v1/x'' undated_world = (Inr (Some res), w')
        \<and> headers (seen res w') X_PROXY_CACHE_AGE_KEY = None
        \<and> headers (seen res w') X_PROXY_CACHE_MAXAGE_KEY = Some ''600'')"
proof -
  have h: "\<not> cache_failing hit_world"
    "cache hit_world ''https://api.jquants.com/v1/x'' = Some demo_entry"
    by (simp_all add: hit_world_def demo_world_def)
  have d: "headers demo_entry ''date'' = Some demo_date" "demo_date \<noteq> []"
    "Date_parse hit_world demo_date = Some 1700000000000"
    "Date_now hit_world = 1700000000000 + 1000 * 4 + 500"
    by (simp_all add: demo_entry_def demo_date_def hit_world_def demo_world_def
        demo_Date_parse_def)
  have four: "Number_toString (Num 4) = ''4''"
    by code_simp
  have h': "\<not> cache_failing undated_world"
    "cache undated_world ''https://api.jquants.com/v1/x'' = Some undated_entry"
    by (simp_all add: undated_world_def demo_world_def)
  have d': "headers undated_entry ''date'' = None"
    "headers undated_entry X_PROXY_CACHE_AGE_KEY = None"
    by (simp_all add: undated_entry_def X_PROXY_CACHE_AGE_KEY_def)
  have a: "\<exists>res w'. getCache ''https://api.jquants.com/v1/x'' hit_world = (Inr (Some res), w')
        \<and> headers (seen res w') X_PROXY_CACHE_AGE_KEY = Some ''4''
        \<and> headers (seen res w') X_PROXY_CACHE_MAXAGE_KEY = Some ''600''"
    using debug_headers_on_hit [OF h, of demo_date 1700000000000 4 500]
    by (simp only: d(1-3) four CACHE_MAX_AGE_string) (auto simp: d(4) d(2))
  have b: "\<exists>res w'. getCache ''https://api.jquants.com/v1/x'' undated_world = (Inr (Some res), w')
        \<and> headers (seen res w') X_PROXY_CACHE_AGE_KEY = None
        \<and> headers (seen res w') X_PROXY_CACHE_MAXAGE_KEY = Some ''600''"
    using debug_headers_on_hit [OF h', of "[]" 0 0 0]
    by (simp only: d' CACHE_MAX_AGE_string) auto
  show ?thesis
    by (intro conjI h d h' d' a b)
qed

subsection \<open>C8: \<open>putCache\<close> stores a clone\<close>

text \<open>
  C8. \<open>putCache\<close> leaves the response object it is given untouched: after the call the
  caller sees the same status, headers and body on it, and its body can still be read if
  it could before. When the body can be read, the call succeeds and hands one object to
  the cache: a copy of the response whose \<^verbatim>\<open>cache-control\<close> header is
  \<^verbatim>\<open>public, s-maxage=600\<close>, all other headers, status and body being those of the
  original; with a working backend the cache's entry for the URL is then what the
  backend keeps of that copy. (When the body was read before, cloning fails and nothing
  changes at all.)
\<close>

theorem putCache_leaves_original_untouched:
  assumes "valid_Response res w"
  shows "seen res (snd (putCache u res w)) = seen res w
     \<and> readable res (snd (putCache u res w)) = readable res w
     \<and> (\<not> readable res w \<longrightarrow> putCache u res w = (Inl BodyUsedError, w))
     \<and> (readable res w \<longrightarrow>
           fst (putCache u res w) = Inr ()
         \<and> (\<exists>stored. issued w (snd (putCache u res w)) = [CachePut u stored]
              \<and> headers stored ''cache-control'' =
                  Some (''public, s-maxage='' @ Number_toString (Num CACHE_MAX_AGE))
              \<and> (\<forall>k. k \<noteq> ''cache-control'' \<longrightarrow> headers stored k = headers (seen res w) k)
              \<and> status stored = status (seen res w) \<and> payload stored = payload (seen res w)
              \<and> (\<not> cache_failing w \<longrightarrow>
                    cache (snd (putCache u res w)) u =
                      (case cache_keeps w u stored of
                         None \<Rightarrow> cache w u
                       | Some kept \<Rightarrow> Some kept))))"
proof (cases "readable res w")
  case True
  from putCache_effect [OF assms True, of u] obtain w' where
    p: "putCache u res w = (Inr (), w')" and s: "seen res w' = seen res w"
    and r: "readable res w'"
    and t: "trace w' = trace w @
          [CachePut u ((seen res w)\<lparr>headers := (headers (seen res w))
                                        (''cache-control'' \<mapsto> ''public, s-maxage=600'')\<rparr>)]"
    and c: "cache w' =
          (if cache_failing w then cache w
           else (case cache_keeps w u
                        ((seen res w)\<lparr>headers := (headers (seen res w))
                                        (''cache-control'' \<mapsto> ''public, s-maxage=600'')\<rparr>) of
                   None \<Rightarrow> cache w
                 | Some kept \<Rightarrow> (cache w)(u \<mapsto> kept)))"
    by blast
  show ?thesis
    using True p s r t c
    by (auto simp: issued_def CACHE_MAX_AGE_string split: option.splits
        simp del: Number_toString.simps)
next
  case False
  then show ?thesis
    by (simp add: putCache_body_used)
qed

theorem putCache_leaves_original_untouched_witness:
  "valid_Response 0 fetched_world \<and> readable 0 fetched_world
   \<and> headers (seen 0 fetched_world) ''cache-control'' = Some ''no-store''
   \<and> seen 0 (snd (putCache ''https://api.jquants.com/v1/x'' 0 fetched_world)) = seen 0 fetched_world
   \<and> readable 0 (snd (putCache ''https://api.jquants.com/v1/x'' 0 fetched_world))
   \<and> fst (putCache ''https://api.jquants.com/v1/x'' 0 fetched_world) = Inr ()
   \<and> (\<exists>stored. issued fetched_world (snd (putCache ''https://api.jquants.com/v1/x'' 0 fetched_world))
                  = [CachePut ''https://api.jquants.com/v1/x'' stored]
         \<and> headers stored ''cache-control'' = Some ''public, s-maxage=600''
         \<and> cache (snd (putCache ''https://api.jquants.com/v1/x'' 0 fetched_world))
              ''https://api.jquants.com/v1/x'' = Some stored)
   \<and> valid_Response 0 used_body_world \<and> \<not> readable 0 used_body_world
   \<and> putCache ''https://api.jquants.com/v1/x'' 0 used_body_world = (Inl BodyUsedError, used_body_world)"
proof -
  have v: "valid_Response 0 fetched_world"
    by (simp add: valid_Response_def fetched_world_def)
  have r: "readable 0 fetched_world"
    by (simp add: readable_def fetched_world_def)
  have f: "\<not> cache_failing fetched_world"
    by (simp add: fetched_world_def demo_world_def)
  have c: "headers (seen 0 fetched_world) ''cache-control'' = Some ''no-store''"
    by (simp add: seen_def fetched_world_def)
  have kp: "cache_keeps fetched_world u m =
      (if status m = 206 \<or> headers m ''set-cookie'' \<noteq> None then None else Some m)" for u m
    by (simp add: fetched_world_def demo_world_def demo_cache_keeps_def)
  have st: "status (seen 0 fetched_world) = 200" "headers (seen 0 fetched_world) ''set-cookie'' = None"
    by (simp_all add: seen_def fetched_world_def)
  have v': "valid_Response 0 used_body_world"
    by (simp add: valid_Response_def used_body_world_def fetched_world_def)
  have r': "\<not> readable 0 used_body_world"
    by (simp add: readable_def used_body_world_def fetched_world_def)
  note t = putCache_leaves_original_untouched [OF v, of "''https://api.jquants.com/v1/x''"]
  note t' = putCache_leaves_original_untouched [OF v', of "''https://api.jquants.com/v1/x''"]
  have a: "seen 0 (snd (putCache ''https://api.jquants.com/v1/x'' 0 fetched_world)) = seen 0 fetched_world"
    using t by blast
  have b: "readable 0 (snd (putCache ''https://api.jquants.com/v1/x'' 0 fetched_world))"
    using t r by blast
  have d: "fst (putCache ''https://api.jquants.com/v1/x'' 0 fetched_world) = Inr ()"
    using t r by blast
  have e: "\<exists>stored. issued fetched_world (snd (putCache ''https://api.jquants.com/v1/x'' 0 fetched_world))
                  = [CachePut ''https://api.jquants.com/v1/x'' stored]
         \<and> headers stored ''cache-control'' = Some ''public, s-maxage=600''
         \<and> cache (snd (putCache ''https://api.jquants.com/v1/x'' 0 fetched_world))
              ''https://api.jquants.com/v1/x'' = Some stored"
    using t r f st unfolding CACHE_MAX_AGE_string kp by auto
  have g: "putCache ''https://api.jquants.com/v1/x'' 0 used_body_world
             = (Inl BodyUsedError, used_body_world)"
    using t' r' by blast
  show ?thesis
    by (intro conjI v r c a b d e v' r' g)
qed

subsection \<open>C9: keys and lifetimes of the stored tokens\<close>

text \<open>
  C9. The tokens are stored in the durable store under the keys \<^verbatim>\<open>refresh_token\<close> and
  \<^verbatim>\<open>id_token\<close>, with TTLs of 518400 seconds (six days) and 82800 seconds (twenty-three
  hours), each strictly shorter than the upstream's own lifetime for the token (seven
  days and twenty-four hours):
  \<^item> when the store has no usable refresh token and the login answers with a non-empty
    \<^verbatim>\<open>refreshToken\<close>, \<open>getRefreshToken\<close> returns that token and has put it under
    \<^verbatim>\<open>refresh_token\<close> with TTL 518400, that put being the one write it issued;
  \<^item> when the refresh token is resolved, the store has no usable ID token and the refresh
    endpoint answers with a non-empty \<^verbatim>\<open>idToken\<close>, \<open>getToken\<close> returns that token and has put
    it under \<^verbatim>\<open>id_token\<close> with TTL 82800, that put being the one write it issued after the
    refresh token was resolved;
  \<^item> in every run, the writes \<open>getToken\<close> issues are exactly these: the refresh token it
    resolved, if the store had none, then the ID token it returns, if the store had none;
    nothing else is ever written, and the store after the call is the store before it
    with at most these two entries replaced.
\<close>

theorem token_keys_and_ttls:
  "list_all token_put (issued w (snd (getToken w)))
   \<and> (KV (snd (getToken w)) = KV w
      \<or> (\<exists>rt. KV (snd (getToken w)) = (KV w)(''refresh_token'' \<mapsto> (rt, 518400)))
      \<or> (\<exists>t. KV (snd (getToken w)) = (KV w)(''id_token'' \<mapsto> (t, 82800)))
      \<or> (\<exists>rt t. KV (snd (getToken w)) =
            (KV w)(''refresh_token'' \<mapsto> (rt, 518400), ''id_token'' \<mapsto> (t, 82800))))
   \<and> REFRESH_TOKEN_KEY = ''refresh_token'' \<and> ID_TOKEN_KEY = ''id_token''
   \<and> REFRESH_TOKEN_TTL = 518400 \<and> REFRESH_TOKEN_TTL = 6 * (24 * 60 * 60)
   \<and> UPSTREAM_REFRESH_TOKEN_LIFETIME = 7 * (24 * 60 * 60)
   \<and> REFRESH_TOKEN_TTL < UPSTREAM_REFRESH_TOKEN_LIFETIME
   \<and> ID_TOKEN_TTL = 82800 \<and> ID_TOKEN_TTL = 23 * (60 * 60)
   \<and> UPSTREAM_ID_TOKEN_LIFETIME = 24 * (60 * 60)
   \<and> ID_TOKEN_TTL < UPSTREAM_ID_TOKEN_LIFETIME
   \<and> (\<not> truthy (map_option fst (KV w ''refresh_token''))
        \<and> upstream w (auth_user_request w) = Some m1 \<and> JSON_parse w (payload m1) = Some o1
        \<and> o1 ''refreshToken'' = Some rt \<and> rt \<noteq> [] \<longrightarrow>
          (\<exists>w1. getRefreshToken w = (Inr rt, w1)
             \<and> KV w1 = (KV w)(''refresh_token'' \<mapsto> (rt, 518400))
             \<and> issued w w1 = [KvGet ''refresh_token'', Fetch (auth_user_request w),
                               KvPut ''refresh_token'' rt 518400]))
   \<and> (getRefreshToken w = (Inr rt, w1)
        \<and> \<not> truthy (map_option fst (KV w1 ''id_token''))
        \<and> upstream w (auth_refresh_request rt) = Some m2 \<and> JSON_parse w (payload m2) = Some o2
        \<and> o2 ''idToken'' = Some t \<and> t \<noteq> [] \<longrightarrow>
          (\<exists>w'. getToken w = (Inr t, w')
             \<and> KV w' = (KV w1)(''id_token'' \<mapsto> (t, 82800))
             \<and> issued w1 w' = [KvGet ''id_token'', Fetch (auth_refresh_request rt),
                                KvPut ''id_token'' t 82800]))
   \<and> (getRefreshToken w = (r1, w1) \<and> getToken w = (r, w') \<longrightarrow>
          filter is_KvPut (issued w w') =
            (case r1 of
               Inl e \<Rightarrow> []
             | Inr rt' \<Rightarrow>
                 (if truthy (map_option fst (KV w ''refresh_token'')) then []
                  else [KvPut ''refresh_token'' rt' 518400]) @
                 (case r of
                    Inl e \<Rightarrow> []
                  | Inr t' \<Rightarrow>
                      if truthy (map_option fst (KV w1 ''id_token'')) then []
                      else [KvPut ''id_token'' t' 82800])))"
proof -
  have k: "REFRESH_TOKEN_KEY = ''refresh_token''" "ID_TOKEN_KEY = ''id_token''"
    "REFRESH_TOKEN_TTL = 518400" "ID_TOKEN_TTL = 82800"
    by (simp_all add: REFRESH_TOKEN_KEY_def ID_TOKEN_KEY_def REFRESH_TOKEN_TTL_def
        ID_TOKEN_TTL_def)
  have a: "list_all token_put (issued w (snd (getToken w)))"
    by (rule getToken_issued) (simp_all add: k)
  have b: "KV (snd (getToken w)) = KV w
      \<or> (\<exists>rt. KV (snd (getToken w)) = (KV w)(''refresh_token'' \<mapsto> (rt, 518400)))
      \<or> (\<exists>t. KV (snd (getToken w)) = (KV w)(''id_token'' \<mapsto> (t, 82800)))
      \<or> (\<exists>rt t. KV (snd (getToken w)) =
            (KV w)(''refresh_token'' \<mapsto> (rt, 518400), ''id_token'' \<mapsto> (t, 82800)))"
    using getToken_store_change [of w] unfolding k by blast
  have c: "\<exists>w1. getRefreshToken w = (Inr rt, w1)
             \<and> KV w1 = (KV w)(''refresh_token'' \<mapsto> (rt, 518400))
             \<and> issued w w1 = [KvGet ''refresh_token'', Fetch (auth_user_request w),
                               KvPut ''refresh_token'' rt 518400]"
    if h: "\<not> truthy (map_option fst (KV w ''refresh_token''))"
      "upstream w (auth_user_request w) = Some m1" "JSON_parse w (payload m1) = Some o1"
      "o1 ''refreshToken'' = Some rt" "rt \<noteq> []"
  proof -
    let ?w0 = "log (KvGet REFRESH_TOKEN_KEY) w"
    obtain r2 w2 where n: "getNewRefreshToken ?w0 = (r2, w2)"
      by fastforce
    have rq: "auth_user_request ?w0 = auth_user_request w"
      by (simp add: auth_user_request_def log_def)
    have "fst (getNewRefreshToken ?w0) = Inr rt"
      unfolding getNewRefreshToken_result rq using h by (simp add: log_def)
    with n have r2: "r2 = Inr rt" by simp
    have g: "getRefreshToken w = (Inr rt, KV_put REFRESH_TOKEN_KEY rt REFRESH_TOKEN_TTL w2)"
      using h(1) n r2 by (simp add: getRefreshToken_def KV_get_def k)
    from getRefreshToken_store [OF g] h(1)
    have "KV (KV_put REFRESH_TOKEN_KEY rt REFRESH_TOKEN_TTL w2) =
            (KV w)(''refresh_token'' \<mapsto> (rt, 518400))"
      and "trace (KV_put REFRESH_TOKEN_KEY rt REFRESH_TOKEN_TTL w2) =
            trace w @ [KvGet ''refresh_token'', Fetch (auth_user_request w),
                       KvPut ''refresh_token'' rt 518400]"
      by (simp_all add: k)
    with g issued_append show ?thesis by blast
  qed
  have d: "\<exists>w'. getToken w = (Inr t, w')
             \<and> KV w' = (KV w1)(''id_token'' \<mapsto> (t, 82800))
             \<and> issued w1 w' = [KvGet ''id_token'', Fetch (auth_refresh_request rt),
                                KvPut ''id_token'' t 82800]"
    if h: "getRefreshToken w = (Inr rt, w1)"
      "\<not> truthy (map_option fst (KV w1 ''id_token''))"
      "upstream w (auth_refresh_request rt) = Some m2" "JSON_parse w (payload m2) = Some o2"
      "o2 ''idToken'' = Some t" "t \<noteq> []"
  proof -
    let ?w0 = "log (KvGet ID_TOKEN_KEY) w1"
    note e = getRefreshToken_effect [OF h(1)]
    obtain r2 w2 where n: "getNewIdToken rt ?w0 = (r2, w2)"
      by fastforce
    have "fst (getNewIdToken rt ?w0) = Inr t"
      unfolding getNewIdToken_result using h(3-6) e(3,4) by (simp add: log_def)
    with n have r2: "r2 = Inr t" by simp
    have g: "getToken w = (Inr t, KV_put ID_TOKEN_KEY t ID_TOKEN_TTL w2)"
      using h(1,2) n r2 by (simp add: getToken_def KV_get_def k)
    from getToken_store [OF h(1) g] h(2)
    have "KV (KV_put ID_TOKEN_KEY t ID_TOKEN_TTL w2) = (KV w1)(''id_token'' \<mapsto> (t, 82800))"
      and "trace (KV_put ID_TOKEN_KEY t ID_TOKEN_TTL w2) =
            trace w1 @ [KvGet ''id_token'', Fetch (auth_refresh_request rt),
                        KvPut ''id_token'' t 82800]"
      by (simp_all add: k)
    with g issued_append show ?thesis by blast
  qed
  have f: "filter is_KvPut (issued w w') =
            (case r1 of
               Inl e \<Rightarrow> []
             | Inr rt' \<Rightarrow>
                 (if truthy (map_option fst (KV w ''refresh_token'')) then []
                  else [KvPut ''refresh_token'' rt' 518400]) @
                 (case r of
                    Inl e \<Rightarrow> []
                  | Inr t' \<Rightarrow>
                      if truthy (map_option fst (KV w1 ''id_token'')) then []
                      else [KvPut ''id_token'' t' 82800]))"
    if g1: "getRefreshToken w = (r1, w1)" and g: "getToken w = (r, w')"
  proof (cases r1)
    case (Inl e)
    with g1 g have "w' = w1"
      by (simp add: getToken_def)
    then show ?thesis
      using getRefreshToken_store [OF g1] Inl
      by (simp add: issued_def)
  next
    case (Inr rt')
    note s1 = getRefreshToken_store [OF g1, unfolded Inr, simplified]
    note s2 = getToken_store [OF g1 [unfolded Inr] g]
    from s1 obtain es1 where t1: "trace w1 = trace w @ es1"
      and f1: "filter is_KvPut es1 =
          (if truthy (map_option fst (KV w ''refresh_token'')) then []
           else [KvPut ''refresh_token'' rt' 518400])"
      by (auto simp: k split: if_splits)
    from s2 obtain es2 where t2: "trace w' = trace w1 @ es2"
      and f2: "filter is_KvPut es2 =
          (case r of
             Inl e \<Rightarrow> []
           | Inr t' \<Rightarrow>
               if truthy (map_option fst (KV w1 ''id_token'')) then []
               else [KvPut ''id_token'' t' 82800])"
      by (cases r) (auto simp: k split: if_splits)
    have "trace w' = trace w @ (es1 @ es2)"
      using t1 t2 by simp
    from issued_append [OF this] show ?thesis
      using f1 f2 Inr by simp
  qed
  show ?thesis
    using a b k c d f
    by (simp add: UPSTREAM_REFRESH_TOKEN_LIFETIME_def UPSTREAM_ID_TOKEN_LIFETIME_def)
qed

text \<open>
  On the sample world with an empty store the call logs in, stores the refresh token,
  asks for an ID token and stores it, each under its key and with its TTL.
\<close>

theorem token_keys_and_ttls_witness:
  "\<not> truthy (map_option fst (KV demo_world ''refresh_token''))
   \<and> upstream demo_world (auth_user_request demo_world) =
        Some \<lparr>status = 200, headers = Map.empty, payload = ''{refreshToken: rt-1}''\<rparr>
   \<and> JSON_parse demo_world ''{refreshToken: rt-1}'' = Some [''refreshToken'' \<mapsto> ''rt-1'']
   \<and> (\<exists>w1. getRefreshToken demo_world = (Inr ''rt-1'', w1)
         \<and> KV w1 = (KV demo_world)(''refresh_token'' \<mapsto> (''rt-1'', 518400))
         \<and> issued demo_world w1 =
              [KvGet ''refresh_token'', Fetch (auth_user_request demo_world),
               KvPut ''refresh_token'' ''rt-1'' 518400])
   \<and> \<not> truthy (map_option fst (KV (snd (getRefreshToken demo_world)) ''id_token''))
   \<and> upstream demo_world (auth_refresh_request ''rt-1'') =
        Some \<lparr>status = 200, headers = Map.empty, payload = ''{idToken: id-1}''\<rparr>
   \<and> JSON_parse demo_world ''{idToken: id-1}'' = Some [''idToken'' \<mapsto> ''id-1'']
   \<and> (\<exists>w'. getToken demo_world = (Inr ''id-1'', w')
         \<and> KV w' = (KV (snd (getRefreshToken demo_world)))(''id_token'' \<mapsto> (''id-1'', 82800))
         \<and> issued (snd (getRefreshToken demo_world)) w' =
              [KvGet ''id_token'', Fetch (auth_refresh_request ''rt-1''),
               KvPut ''id_token'' ''id-1'' 82800])
   \<and> filter is_KvPut (issued demo_world (snd (getToken demo_world))) =
        [KvPut ''refresh_token'' ''rt-1'' 518400, KvPut ''id_token'' ''id-1'' 82800]
   \<and> list_all token_put (issued demo_world (snd (getToken demo_world)))
   \<and> KV (snd (getToken demo_world)) ''refresh_token'' = Some (''rt-1'', 518400)
   \<and> KV (snd (getToken demo_world)) ''id_token'' = Some (''id-1'', 82800)"
proof -
  let ?m1 = "\<lparr>status = 200, headers = Map.empty, payload = ''{refreshToken: rt-1}''\<rparr>"
  let ?m2 = "\<lparr>status = 200, headers = Map.empty, payload = ''{idToken: id-1}''\<rparr>"
  have h1: "\<not> truthy (map_option fst (KV demo_world ''refresh_token''))"
    "upstream demo_world (auth_user_request demo_world) = Some ?m1"
    "JSON_parse demo_world ''{refreshToken: rt-1}'' = Some [''refreshToken'' \<mapsto> ''rt-1'']"
    by (simp_all add: demo_world_def demo_upstream_def demo_JSON_parse_def
        auth_user_request_def API_BASE_URL_def)
  have h2: "upstream demo_world (auth_refresh_request ''rt-1'') = Some ?m2"
    "JSON_parse demo_world ''{idToken: id-1}'' = Some [''idToken'' \<mapsto> ''id-1'']"
    by (simp_all add: demo_world_def demo_upstream_def demo_JSON_parse_def
        auth_refresh_request_def API_BASE_URL_def)
  have r1: "fst (getRefreshToken demo_world) = Inr ''rt-1''"
    "fst (getToken demo_world) = Inr ''id-1''"
    "\<not> truthy (map_option fst (KV (snd (getRefreshToken demo_world)) ''id_token''))"
    by (simp_all add: demo_defs source_defs heap_defs Let_def)
  have g1: "getRefreshToken demo_world = (Inr ''rt-1'', snd (getRefreshToken demo_world))"
    using r1(1) by (metis prod.collapse)
  have g: "getToken demo_world = (Inr ''id-1'', snd (getToken demo_world))"
    using r1(2) by (metis prod.collapse)
  note t = token_keys_and_ttls
    [of demo_world ?m1 "[''refreshToken'' \<mapsto> ''rt-1'']" "''rt-1''"
        "snd (getRefreshToken demo_world)" ?m2 "[''idToken'' \<mapsto> ''id-1'']" "''id-1''"
        "Inr ''rt-1''" "Inr ''id-1''" "snd (getToken demo_world)"]
  have ne: "''rt-1'' \<noteq> []" "''id-1'' \<noteq> []"
    by simp_all
  have o: "[''refreshToken'' \<mapsto> ''rt-1''] ''refreshToken'' = Some ''rt-1''"
    "[''idToken'' \<mapsto> ''id-1''] ''idToken'' = Some ''id-1''"
    by simp_all
  have p1: "payload ?m1 = ''{refreshToken: rt-1}''" "payload ?m2 = ''{idToken: id-1}''"
    by simp_all
  have a: "\<exists>w1. getRefreshToken demo_world = (Inr ''rt-1'', w1)
         \<and> KV w1 = (KV demo_world)(''refresh_token'' \<mapsto> (''rt-1'', 518400))
         \<and> issued demo_world w1 =
              [KvGet ''refresh_token'', Fetch (auth_user_request demo_world),
               KvPut ''refresh_token'' ''rt-1'' 518400]"
    using t h1 ne o unfolding p1 by blast
  have b: "\<exists>w'. getToken demo_world = (Inr ''id-1'', w')
         \<and> KV w' = (KV (snd (getRefreshToken demo_world)))(''id_token'' \<mapsto> (''id-1'', 82800))
         \<and> issued (snd (getRefreshToken demo_world)) w' =
              [KvGet ''id_token'', Fetch (auth_refresh_request ''rt-1''),
               KvPut ''id_token'' ''id-1'' 82800]"
    using t g1 r1(3) h2 ne o unfolding p1 by blast
  have "filter is_KvPut (issued demo_world (snd (getToken demo_world))) =
            (case (Inr ''rt-1'' :: error + string) of
               Inl e \<Rightarrow> []
             | Inr rt' \<Rightarrow>
                 (if truthy (map_option fst (KV demo_world ''refresh_token'')) then []
                  else [KvPut ''refresh_token'' rt' 518400]) @
                 (case (Inr ''id-1'' :: error + string) of
                    Inl e \<Rightarrow> []
                  | Inr t' \<Rightarrow>
                      if truthy (map_option fst
                                   (KV (snd (getRefreshToken demo_world)) ''id_token'')) then []
                      else [KvPut ''id_token'' t' 82800]))"
    using t g1 g by blast
  then have c: "filter is_KvPut (issued demo_world (snd (getToken demo_world))) =
        [KvPut ''refresh_token'' ''rt-1'' 518400, KvPut ''id_token'' ''id-1'' 82800]"
    using h1(1) r1(3) by simp
  have d: "list_all token_put (issued demo_world (snd (getToken demo_world)))"
    using t by blast
  have e: "KV (snd (getToken demo_world)) ''refresh_token'' = Some (''rt-1'', 518400)"
    "KV (snd (getToken demo_world)) ''id_token'' = Some (''id-1'', 82800)"
    by (simp_all add: demo_defs source_defs heap_defs Let_def)
  show ?thesis
    by (intro conjI h1 h2 r1(3) a b c d e)
qed

subsection \<open>C10: no empty token\<close>

text \<open>
  C10. A token that \<open>getRefreshToken\<close> or \<open>getToken\<close> returns is never the empty string;
  every write to the durable store that \<open>getToken\<close> or \<open>get\<close> issues writes a non-empty
  value; every request that \<open>get\<close> sends with an \<^verbatim>\<open>Authorization\<close> header carries
  \<^verbatim>\<open>Bearer\<close> followed by a non-empty token. An empty string found in the store counts
  as a miss: with an empty refresh token stored, \<open>getRefreshToken\<close> logs in again; with an
  empty ID token stored (and the refresh token resolved), \<open>getToken\<close> asks for a new ID
  token.
\<close>

theorem tokens_are_never_empty:
  "(fst (getRefreshToken w) = Inr rt \<longrightarrow> rt \<noteq> [])
   \<and> (fst (getToken w) = Inr t \<longrightarrow> t \<noteq> [])
   \<and> list_all nonempty_put (issued w (snd (getToken w)))
   \<and> list_all nonempty_put (issued w (snd (get endpoint w)))
   \<and> list_all nonempty_bearer (issued w (snd (get endpoint w)))
   \<and> (KV w REFRESH_TOKEN_KEY = Some ([], n) \<longrightarrow>
         Fetch (auth_user_request w) \<in> set (issued w (snd (getRefreshToken w))))
   \<and> (KV w ID_TOKEN_KEY = Some ([], n) \<and> getRefreshToken w = (Inr rt, w1) \<longrightarrow>
         Fetch (auth_refresh_request rt) \<in> set (issued w1 (snd (getToken w))))"
proof -
  have a: "rt \<noteq> []" if "fst (getRefreshToken w) = Inr rt"
  proof -
    from that have "getRefreshToken w = (Inr rt, snd (getRefreshToken w))"
      by (metis prod.collapse)
    from getRefreshToken_store [OF this] show ?thesis by simp
  qed
  have b: "t \<noteq> []" if "fst (getToken w) = Inr t"
  proof -
    from that have "getToken w = (Inr t, snd (getToken w))"
      by (metis prod.collapse)
    from getToken_success(1) [OF this] show ?thesis .
  qed
  have c: "list_all nonempty_put (issued w (snd (getToken w)))"
    by (rule getToken_issued) simp_all
  have d: "list_all nonempty_put (issued w (snd (get endpoint w)))"
    by (rule get_issued) simp_all
  have e: "list_all nonempty_bearer (issued w (snd (get endpoint w)))"
    by (rule get_issued)
       (simp_all add: api_request_def auth_user_request_def auth_refresh_request_def)
  have f: "Fetch (auth_user_request w) \<in> set (issued w (snd (getRefreshToken w)))"
    if k: "KV w REFRESH_TOKEN_KEY = Some ([], n)"
  proof -
    obtain r w' where g: "getRefreshToken w = (r, w')"
      by fastforce
    show ?thesis
      using getRefreshToken_store [OF g] g k
      by (cases r) (auto simp: issued_def)
  qed
  have h: "Fetch (auth_refresh_request rt) \<in> set (issued w1 (snd (getToken w)))"
    if k: "KV w ID_TOKEN_KEY = Some ([], n)" and g1: "getRefreshToken w = (Inr rt, w1)"
  proof -
    obtain r w' where g: "getToken w = (r, w')"
      by fastforce
    have "KV w1 ID_TOKEN_KEY = Some ([], n)"
      using getRefreshToken_store [OF g1] k token_keys_distinct
      by (auto split: if_splits)
    then show ?thesis
      using getToken_store [OF g1 g] g
      by (cases r) (auto simp: issued_def)
  qed
  show ?thesis
    using a b c d e f h by blast
qed

theorem tokens_are_never_empty_witness:
  "KV blank_store_world REFRESH_TOKEN_KEY = Some ([], 518400)
   \<and> KV blank_store_world ID_TOKEN_KEY = Some ([], 82800)
   \<and> fst (getRefreshToken blank_store_world) = Inr ''rt-1'' \<and> ''rt-1'' \<noteq> []
   \<and> fst (getToken blank_store_world) = Inr ''id-1'' \<and> ''id-1'' \<noteq> []
   \<and> Fetch (auth_user_request blank_store_world)
        \<in> set (issued blank_store_world (snd (getRefreshToken blank_store_world)))
   \<and> Fetch (auth_refresh_request ''rt-1'')
        \<in> set (issued (snd (getRefreshToken blank_store_world)) (snd (getToken blank_store_world)))
   \<and> list_all nonempty_put (issued blank_store_world (snd (get ''/v1/x'' blank_store_world)))
   \<and> list_all nonempty_bearer (issued blank_store_world (snd (get ''/v1/x'' blank_store_world)))
   \<and> KvPut ''id_token'' ''id-1'' 82800
        \<in> set (issued blank_store_world (snd (get ''/v1/x'' blank_store_world)))
   \<and> Fetch (api_request ''https://api.jquants.com/v1/x'' ''id-1'')
        \<in> set (issued blank_store_world (snd (get ''/v1/x'' blank_store_world)))"
proof -
  have k: "KV blank_store_world REFRESH_TOKEN_KEY = Some ([], 518400)"
    "KV blank_store_world ID_TOKEN_KEY = Some ([], 82800)"
    by (simp_all add: blank_store_world_def REFRESH_TOKEN_KEY_def ID_TOKEN_KEY_def)
  have r: "fst (getRefreshToken blank_store_world) = Inr ''rt-1''"
    "fst (getToken blank_store_world) = Inr ''id-1''"
    by (simp_all add: demo_defs source_defs heap_defs Let_def)
  have g1: "getRefreshToken blank_store_world =
      (Inr ''rt-1'', snd (getRefreshToken blank_store_world))"
    using r(1) by (metis prod.collapse)
  note t = tokens_are_never_empty
    [of blank_store_world "''rt-1''" "''id-1''" "''/v1/x''" 518400
        "snd (getRefreshToken blank_store_world)"]
  note t' = tokens_are_never_empty
    [of blank_store_world "''rt-1''" "''id-1''" "''/v1/x''" 82800
        "snd (getRefreshToken blank_store_world)"]
  have a: "''rt-1'' \<noteq> []" "''id-1'' \<noteq> []"
    using t r by blast+
  have b: "Fetch (auth_user_request blank_store_world)
        \<in> set (issued blank_store_world (snd (getRefreshToken blank_store_world)))"
    using t k(1) by blast
  have c: "Fetch (auth_refresh_request ''rt-1'')
        \<in> set (issued (snd (getRefreshToken blank_store_world)) (snd (getToken blank_store_world)))"
    using t' k(2) g1 by blast
  have d: "list_all nonempty_put (issued blank_store_world (snd (get ''/v1/x'' blank_store_world)))"
    "list_all nonempty_bearer (issued blank_store_world (snd (get ''/v1/x'' blank_store_world)))"
    using t by blast+
  have e: "KvPut ''id_token'' ''id-1'' 82800
        \<in> set (issued blank_store_world (snd (get ''/v1/x'' blank_store_world)))"
    "Fetch (api_request ''https://api.jquants.com/v1/x'' ''id-1'')
        \<in> set (issued blank_store_world (snd (get ''/v1/x'' blank_store_world)))"
    by (simp_all add: issued_def demo_defs source_defs heap_defs Let_def lowercase_names
        CACHE_MAX_AGE_string del: Number_toString.simps)
  show ?thesis
    by (intro conjI k r a b c d e)
qed

end
